theory Spec2Isabelle
  imports Complex_Main "HOL-Library.Multiset" "HOL-Library.AList"
begin

section \<open>Workspace trust: data model\<close>

text \<open>
  The development follows \<^verbatim>\<open>src/vs/platform/workspace/common/workspaceTrust.ts\<close>.
  The enum \<^verbatim>\<open>WorkspaceTrustState\<close> (numeric values 0, 1, 2 in this order),
  the elements of \<^verbatim>\<open>IWorkspaceTrustStateInfo.localFolders\<close> and the request
  interface are taken over field by field. A folder is identified by the text that
  \<^verbatim>\<open>URI.toString()\<close> gives, so folder keys are strings.
\<close>

datatype WorkspaceTrustState = Untrusted | Trusted | Unknown

record FolderTrustInfo =
  uri :: string
  trustState :: WorkspaceTrustState

record IWorkspaceTrustStateInfo =
  localFolders :: "FolderTrustInfo list"

record IWorkspaceTrustRequest =
  immediate :: bool
  message :: "string option"


section \<open>The load path on untyped values\<close>

text \<open>
  \<^verbatim>\<open>loadTrustInfo\<close> casts whatever \<^verbatim>\<open>JSON.parse\<close> returns to the interface type
  without looking at it, so its behaviour is a matter of JavaScript values, not of the
  declared types. A value is what \<^verbatim>\<open>JSON.parse\<close> can build (numbers by their finite
  value). Arrays are objects: an array carries its elements and its own named
  properties, which \<^verbatim>\<open>JSON.parse\<close> leaves empty and an assignment can add.
\<close>

datatype jsval =
    JNull
  | JBool bool
  | JNum rat
  | JStr string
  | JArr "jsval list" "(string \<times> jsval) list"
  | JObj "(string \<times> jsval) list"

datatype js_error = TypeError

text \<open>JavaScript truthiness, as \<^verbatim>\<open>!result\<close> and \<^verbatim>\<open>!result.localFolders\<close> test it.\<close>

fun truthy :: "jsval \<Rightarrow> bool" where
  "truthy JNull = False"
| "truthy (JBool b) = b"
| "truthy (JNum n) = (n \<noteq> 0)"
| "truthy (JStr s) = (s \<noteq> [])"
| "truthy (JArr xs ps) = True"
| "truthy (JObj ps) = True"

text \<open>
  Reading \<^verbatim>\<open>result.localFolders\<close>: a type error on null, the own property of an
  object or array, and undefined (\<open>None\<close>) on a boolean, number or string, whose
  prototypes have no such property.
\<close>

fun get_localFolders :: "jsval \<Rightarrow> js_error + jsval option" where
  "get_localFolders JNull = Inl TypeError"
| "get_localFolders (JObj ps) = Inr (map_of ps ''localFolders'')"
| "get_localFolders (JArr xs ps) = Inr (map_of ps ''localFolders'')"
| "get_localFolders v = Inr None"

text \<open>
  The assignment \<^verbatim>\<open>result.localFolders = v\<close>. The file is a module and the code a
  class body, hence strict mode: creating a property on a primitive value throws a
  type error. On an object or array an existing property keeps its place and a new one
  goes last.
\<close>

fun set_localFolders :: "jsval \<Rightarrow> jsval \<Rightarrow> js_error + jsval" where
  "set_localFolders (JObj ps) v = Inr (JObj (AList.update ''localFolders'' v ps))"
| "set_localFolders (JArr xs ps) v = Inr (JArr xs (AList.update ''localFolders'' v ps))"
| "set_localFolders r v = Inl TypeError"

definition emptyTrustInfo :: jsval where
  "emptyTrustInfo = JObj [(''localFolders'', JArr [] [])]"

text \<open>
  \<^verbatim>\<open>WorkspaceTrustModel.loadTrustInfo\<close> (lines 122 to 148). \<open>infoAsString\<close> is what
  \<^verbatim>\<open>storageService.get\<close> returned (\<open>None\<close> for undefined). \<^verbatim>\<open>JSON.parse\<close> belongs
  to the runtime and is a parameter: \<open>JSON_parse s = None\<close> stands for the syntax
  error that the empty \<^verbatim>\<open>catch\<close> swallows. The two guards that follow the
  \<^verbatim>\<open>try\<close> are outside it, so an error raised there leaves the function.
\<close>

definition loadTrustInfo :: "(string \<Rightarrow> jsval option) \<Rightarrow> string option \<Rightarrow> js_error + jsval" where
  "loadTrustInfo JSON_parse infoAsString =
    (let parsed = (case infoAsString of
                     None \<Rightarrow> None
                   | Some s \<Rightarrow> if s \<noteq> [] then JSON_parse s else None);
         result = (case parsed of
                     None \<Rightarrow> emptyTrustInfo
                   | Some v \<Rightarrow> if truthy v then v else emptyTrustInfo)
     in case get_localFolders result of
          Inl e \<Rightarrow> Inl e
        | Inr lf \<Rightarrow>
            if (case lf of None \<Rightarrow> False | Some v \<Rightarrow> truthy v) then Inr result
            else set_localFolders result (JArr [] []))"

text \<open>
  The declared shape \<^verbatim>\<open>{ localFolders: { uri: string, trustState: WorkspaceTrustState }[] }\<close>
  read off a value: \<open>as_info v = Some i\<close> when \<open>v\<close> inhabits the interface and \<open>i\<close> is
  its typed content, \<open>None\<close> when the cast of line 128 is wrong. \<open>encode_info\<close> is the
  value that \<^verbatim>\<open>JSON.stringify\<close> followed by \<^verbatim>\<open>JSON.parse\<close> gives back for a typed
  record set.
\<close>

fun as_state :: "jsval \<Rightarrow> WorkspaceTrustState option" where
  "as_state (JNum n) =
     (if n = 0 then Some Untrusted else if n = 1 then Some Trusted
      else if n = 2 then Some Unknown else None)"
| "as_state v = None"

fun as_folder :: "jsval \<Rightarrow> FolderTrustInfo option" where
  "as_folder (JObj ps) =
     (case (map_of ps ''uri'', map_of ps ''trustState'') of
        (Some (JStr u), Some t) \<Rightarrow>
          (case as_state t of
             Some st \<Rightarrow> Some \<lparr>uri = u, trustState = st\<rparr>
           | None \<Rightarrow> None)
      | _ \<Rightarrow> None)"
| "as_folder v = None"

fun as_info :: "jsval \<Rightarrow> IWorkspaceTrustStateInfo option" where
  "as_info (JObj ps) =
     (case map_of ps ''localFolders'' of
        Some (JArr xs qs) \<Rightarrow>
          (case those (map as_folder xs) of
             Some fs \<Rightarrow> Some \<lparr>localFolders = fs\<rparr>
           | None \<Rightarrow> None)
      | _ \<Rightarrow> None)"
| "as_info v = None"

fun encode_state :: "WorkspaceTrustState \<Rightarrow> jsval" where
  "encode_state Untrusted = JNum 0"
| "encode_state Trusted = JNum 1"
| "encode_state Unknown = JNum 2"

definition encode_folder :: "FolderTrustInfo \<Rightarrow> jsval" where
  "encode_folder i = JObj [(''uri'', JStr (uri i)), (''trustState'', encode_state (trustState i))]"

definition encode_info :: "IWorkspaceTrustStateInfo \<Rightarrow> jsval" where
  "encode_info i = JObj [(''localFolders'', JArr (map encode_folder (localFolders i)) [])]"


section \<open>The trust store on typed records\<close>

text \<open>
  The loop of \<^verbatim>\<open>getFolderTrustState\<close> (lines 193 to 201): the first record with the
  folder's key decides, and no record means \<open>Unknown\<close>.
\<close>

fun findFolderTrust :: "string \<Rightarrow> FolderTrustInfo list \<Rightarrow> WorkspaceTrustState" where
  "findFolderTrust folder [] = Unknown"
| "findFolderTrust folder (trustInfo # rest) =
     (if uri trustInfo = folder then trustState trustInfo else findFolderTrust folder rest)"

text \<open>
  The \<^verbatim>\<open>for\<close> loop of \<^verbatim>\<open>setFolderTrustState\<close> (lines 171 to 180), with the flags
  \<open>found\<close> and \<open>changed\<close> threaded through: every record with the folder's key is
  visited (there is no \<^verbatim>\<open>break\<close>) and rewritten in place when its state differs.
\<close>

fun markFolders ::
  "string \<Rightarrow> WorkspaceTrustState \<Rightarrow> FolderTrustInfo list \<Rightarrow> bool \<Rightarrow> bool
     \<Rightarrow> FolderTrustInfo list \<times> bool \<times> bool" where
  "markFolders folder st [] found changed = ([], found, changed)"
| "markFolders folder st (trustInfo # rest) found changed =
     (if uri trustInfo = folder then
        (if trustState trustInfo \<noteq> st then
           (case markFolders folder st rest True True of
              (rest', fc) \<Rightarrow> (trustInfo\<lparr>trustState := st\<rparr> # rest', fc))
         else
           (case markFolders folder st rest True changed of
              (rest', fc) \<Rightarrow> (trustInfo # rest', fc)))
      else
        (case markFolders folder st rest found changed of
           (rest', fc) \<Rightarrow> (trustInfo # rest', fc)))"

text \<open>
  The body of \<^verbatim>\<open>setFolderTrustState\<close> up to the test of \<open>changed\<close> (lines 161 to 186):
  the new record list and the flag.
\<close>

definition updateLocalFolders ::
  "string \<Rightarrow> WorkspaceTrustState \<Rightarrow> FolderTrustInfo list \<Rightarrow> FolderTrustInfo list \<times> bool" where
  "updateLocalFolders folder st fs =
    (if st = Unknown then
       (let fs' = filter (\<lambda>info. uri info \<noteq> folder) fs
        in (fs', length fs' \<noteq> length fs))
     else
       (case markFolders folder st fs False False of
          (fs', found, changed) \<Rightarrow>
            if \<not> found then (fs' @ [\<lparr>uri = folder, trustState = st\<rparr>], True)
            else (fs', changed)))"


section \<open>The aggregation loop\<close>

text \<open>
  The loop of \<^verbatim>\<open>calculateWorkspaceTrustState\<close> (lines 288 to 306) over the folders'
  trust states; \<open>state\<close> is the local variable, \<open>None\<close> while it is undefined. An
  untrusted folder returns at once.
\<close>

fun aggregateFolders :: "WorkspaceTrustState list \<Rightarrow> WorkspaceTrustState option \<Rightarrow> WorkspaceTrustState" where
  "aggregateFolders [] state = (case state of None \<Rightarrow> Unknown | Some s \<Rightarrow> s)"
| "aggregateFolders (Untrusted # rest) state = Untrusted"
| "aggregateFolders (Unknown # rest) state = aggregateFolders rest (Some Unknown)"
| "aggregateFolders (Trusted # rest) state =
     aggregateFolders rest (if state = None then Some Trusted else state)"


section \<open>The service, its two models and their collaborators as one state\<close>

text \<open>
  Everything an emitter fires and every write to storage is appended to a trace, in
  the order the synchronous calls produce it.
\<close>

datatype event =
    StorageStore IWorkspaceTrustStateInfo
  | ModelDidChangeTrustState
  | DidInitiateRequest
  | DidCompleteRequest "WorkspaceTrustState option"
  | DidChangeTrustState WorkspaceTrustState WorkspaceTrustState

text \<open>
  The fields, in three groups.

  The collaborators: \<open>storage\<close> is the value under \<^verbatim>\<open>WORKSPACE_TRUST_STORAGE_KEY\<close>
  in the global scope (\<open>None\<close> when the key is absent), \<open>trustEnabledSetting\<close> what
  the configuration returns for \<^verbatim>\<open>workspace.trustEnabled\<close>, \<open>workbenchEmpty\<close> whether
  \<^verbatim>\<open>getWorkbenchState()\<close> is \<^verbatim>\<open>WorkbenchState.EMPTY\<close>, \<open>folders\<close> the keys of
  \<^verbatim>\<open>_workspace.folders\<close>, and the two context keys.

  The fields of the classes: \<open>trustStateInfo\<close> of the data model, \<open>trustRequest\<close> of
  the request model, and of the service \<open>currentTrustState\<close>, \<open>inFlightResolver\<close> and
  \<open>trustRequestPromise\<close>.

  Promises: \<open>promises\<close> lists every promise made by \<^verbatim>\<open>new Promise\<close>, \<open>None\<close> while
  it is pending and \<open>Some v\<close> once resolved with \<open>v\<close>; a promise is named by its
  position, and the resolver of a promise by the same number.

  In this state the stored text is identified with the record set it serialises
  (\<^verbatim>\<open>JSON.parse\<close> undoes \<^verbatim>\<open>JSON.stringify\<close> on such plain data); what the load path
  does with any other text is the subject of \<open>loadTrustInfo\<close> above.
\<close>

record TrustSystem =
  storage :: "IWorkspaceTrustStateInfo option"
  trustEnabledSetting :: "bool option"
  workbenchEmpty :: bool
  folders :: "string list"
  ctxWorkspaceTrustState :: WorkspaceTrustState
  ctxWorkspaceTrustPendingRequest :: bool
  trustStateInfo :: IWorkspaceTrustStateInfo
  trustRequest :: "IWorkspaceTrustRequest option"
  currentTrustState :: WorkspaceTrustState
  inFlightResolver :: "nat option"
  trustRequestPromise :: "nat option"
  promises :: "WorkspaceTrustState option list"
  trace :: "event list"

definition WORKSPACE_TRUST_STORAGE_KEY :: string where
  "WORKSPACE_TRUST_STORAGE_KEY = ''content.trust.model.key''"

text \<open>
  \<open>loadTrustInfo\<close> on a store that holds a serialised record set or nothing; lemma
  \<open>loadTrustInfo_typed_refines\<close> below relates it to the untyped function.
\<close>

definition loadTrustInfo_typed :: "IWorkspaceTrustStateInfo option \<Rightarrow> IWorkspaceTrustStateInfo" where
  "loadTrustInfo_typed infoAsString =
    (case infoAsString of None \<Rightarrow> \<lparr>localFolders = []\<rparr> | Some result \<Rightarrow> result)"

definition isWorkspaceTrustEnabled :: "TrustSystem \<Rightarrow> bool" where
  "isWorkspaceTrustEnabled w = (case trustEnabledSetting w of None \<Rightarrow> False | Some b \<Rightarrow> b)"

definition getFolderTrustState :: "string \<Rightarrow> TrustSystem \<Rightarrow> WorkspaceTrustState" where
  "getFolderTrustState folder w = findFolderTrust folder (localFolders (trustStateInfo w))"

definition calculateWorkspaceTrustState :: "TrustSystem \<Rightarrow> WorkspaceTrustState" where
  "calculateWorkspaceTrustState w =
    (if \<not> isWorkspaceTrustEnabled w then Trusted
     else if workbenchEmpty w then Trusted
     else aggregateFolders (map (\<lambda>folder. getFolderTrustState folder w) (folders w)) None)"

text \<open>The setter of \<^verbatim>\<open>currentTrustState\<close> (lines 271 to 277).\<close>

definition set_currentTrustState :: "WorkspaceTrustState \<Rightarrow> TrustSystem \<Rightarrow> TrustSystem" where
  "set_currentTrustState st w =
    (if currentTrustState w = st then w
     else w\<lparr>currentTrustState := st,
            trace := trace w @ [DidChangeTrustState (currentTrustState w) st]\<rparr>)"

text \<open>
  \<^verbatim>\<open>_onDidChangeTrustState.fire()\<close> of the data model: the event, then its one
  listener, which the service registers at line 259.
\<close>

definition fireModelDidChangeTrustState :: "TrustSystem \<Rightarrow> TrustSystem" where
  "fireModelDidChangeTrustState w =
    (let w1 = w\<lparr>trace := trace w @ [ModelDidChangeTrustState]\<rparr>
     in set_currentTrustState (calculateWorkspaceTrustState w1) w1)"

definition onDidStorageChange :: "TrustSystem \<Rightarrow> TrustSystem" where
  "onDidStorageChange w =
    fireModelDidChangeTrustState (w\<lparr>trustStateInfo := loadTrustInfo_typed (storage w)\<rparr>)"

text \<open>The listener on \<^verbatim>\<open>storageService.onDidChangeValue\<close> (lines 115 to 119).\<close>

definition onDidChangeValue :: "string \<Rightarrow> TrustSystem \<Rightarrow> TrustSystem" where
  "onDidChangeValue key w =
    (if key = WORKSPACE_TRUST_STORAGE_KEY then onDidStorageChange w else w)"

text \<open>
  Modelled from the spec: the storage service, which is not among the sources. The
  spec takes it as a key-value store with get and set by key and a change-notification
  event. \<open>storage_store\<close> is a write of the trust key: the value is replaced and, when
  the write changed it, the change event is delivered synchronously.
  \<open>storage_changedElsewhere\<close> is a write by another window that shares the store.
\<close>

definition storage_store :: "IWorkspaceTrustStateInfo \<Rightarrow> TrustSystem \<Rightarrow> TrustSystem" where
  "storage_store v w =
    (let w1 = w\<lparr>trace := trace w @ [StorageStore v]\<rparr>
     in if storage w = Some v then w1
        else onDidChangeValue WORKSPACE_TRUST_STORAGE_KEY (w1\<lparr>storage := Some v\<rparr>))"

definition storage_changedElsewhere ::
  "string \<Rightarrow> IWorkspaceTrustStateInfo option \<Rightarrow> TrustSystem \<Rightarrow> TrustSystem" where
  "storage_changedElsewhere key v w =
    (if key = WORKSPACE_TRUST_STORAGE_KEY then onDidChangeValue key (w\<lparr>storage := v\<rparr>)
     else onDidChangeValue key w)"

definition saveTrustInfo :: "TrustSystem \<Rightarrow> TrustSystem" where
  "saveTrustInfo w = storage_store (trustStateInfo w) w"

definition setFolderTrustState :: "string \<Rightarrow> WorkspaceTrustState \<Rightarrow> TrustSystem \<Rightarrow> TrustSystem" where
  "setFolderTrustState folder st w =
    (case updateLocalFolders folder st (localFolders (trustStateInfo w)) of
       (fs', changed) \<Rightarrow>
         (let w1 = w\<lparr>trustStateInfo := (trustStateInfo w)\<lparr>localFolders := fs'\<rparr>\<rparr>
          in if changed then saveTrustInfo w1 else w1))"

text \<open>
  \<^verbatim>\<open>folders.forEach(folder => this.dataModel.setFolderTrustState(folder.uri, st))\<close>,
  used by the completion handler and by the reset.
\<close>

fun setEveryFolder :: "string list \<Rightarrow> WorkspaceTrustState \<Rightarrow> TrustSystem \<Rightarrow> TrustSystem" where
  "setEveryFolder [] st w = w"
| "setEveryFolder (folder # rest) st w = setEveryFolder rest st (setFolderTrustState folder st w)"


subsection \<open>The request model\<close>

text \<open>
  \<^verbatim>\<open>initiateRequest\<close> (lines 213 to 220). The service passes its optional argument
  on, so the request may be undefined; \<^verbatim>\<open>!request.immediate\<close> is then a type error,
  reached only when a request is pending (the conjunction short-circuits otherwise).
\<close>

definition initiateRequest ::
  "IWorkspaceTrustRequest option \<Rightarrow> TrustSystem \<Rightarrow> js_error + TrustSystem" where
  "initiateRequest request w =
    (let accepted = w\<lparr>trustRequest := request, trace := trace w @ [DidInitiateRequest]\<rparr>
     in case trustRequest w of
          None \<Rightarrow> Inr accepted
        | Some pending \<Rightarrow>
            (case request of
               None \<Rightarrow> Inl TypeError
             | Some r \<Rightarrow>
                 if \<not> immediate r \<or> immediate pending then Inr w else Inr accepted))"

text \<open>
  Calling a promise's resolver: a pending promise takes the value, a settled one
  keeps its own.
\<close>

definition resolvePromise :: "nat \<Rightarrow> WorkspaceTrustState \<Rightarrow> TrustSystem \<Rightarrow> TrustSystem" where
  "resolvePromise p v w =
    (if p < length (promises w) \<and> promises w ! p = None
     then w\<lparr>promises := (promises w)[p := Some v]\<rparr> else w)"

text \<open>\<^verbatim>\<open>onTrustRequestCompleted\<close> (lines 309 to 327).\<close>

definition onTrustRequestCompleted :: "WorkspaceTrustState option \<Rightarrow> TrustSystem \<Rightarrow> TrustSystem" where
  "onTrustRequestCompleted decision w =
    (let w1 = (case inFlightResolver w of
                 Some p \<Rightarrow>
                   resolvePromise p
                     (case decision of None \<Rightarrow> currentTrustState w | Some st \<Rightarrow> st) w
               | None \<Rightarrow> w);
         w2 = w1\<lparr>inFlightResolver := None, trustRequestPromise := None\<rparr>
     in case decision of
          None \<Rightarrow> w2
        | Some st \<Rightarrow>
            (setEveryFolder (folders w2) st w2)
              \<lparr>ctxWorkspaceTrustPendingRequest := False, ctxWorkspaceTrustState := st\<rparr>)"

text \<open>
  \<^verbatim>\<open>completeRequest\<close> (lines 222 to 225): the slot is cleared, the event fired, and
  its listener (line 260) is the completion handler of the service.
\<close>

definition completeRequest :: "WorkspaceTrustState option \<Rightarrow> TrustSystem \<Rightarrow> TrustSystem" where
  "completeRequest decision w =
    onTrustRequestCompleted decision
      (w\<lparr>trustRequest := None, trace := trace w @ [DidCompleteRequest decision]\<rparr>)"


subsection \<open>The service\<close>

text \<open>
  What the body of the \<^verbatim>\<open>async\<close> function \<^verbatim>\<open>requireWorkspaceTrust\<close> hands back: a
  trust state, the promise it returns (the caller's promise then follows that one), or
  the error it throws.
\<close>

datatype require_result = Resolved WorkspaceTrustState | Future nat | Rejected js_error

text \<open>\<^verbatim>\<open>request?.immediate\<close> as a condition.\<close>

definition requestImmediate :: "IWorkspaceTrustRequest option \<Rightarrow> bool" where
  "requestImmediate request = (case request of None \<Rightarrow> False | Some r \<Rightarrow> immediate r)"

text \<open>\<^verbatim>\<open>requireWorkspaceTrust\<close> (lines 337 to 363).\<close>

definition requireWorkspaceTrust ::
  "IWorkspaceTrustRequest option \<Rightarrow> TrustSystem \<Rightarrow> require_result \<times> TrustSystem" where
  "requireWorkspaceTrust request w =
    (if currentTrustState w = Trusted then (Resolved (currentTrustState w), w)
     else if currentTrustState w = Untrusted \<and> \<not> requestImmediate request
       then (Resolved (currentTrustState w), w)
     else
       (case trustRequestPromise w of
          Some p \<Rightarrow>
            if requestImmediate request
               \<and> (case trustRequest w of None \<Rightarrow> False | Some pending \<Rightarrow> \<not> immediate pending)
            then (case initiateRequest request w of
                    Inl e \<Rightarrow> (Rejected e, w)
                  | Inr w' \<Rightarrow> (Future p, w'))
            else (Future p, w)
        | None \<Rightarrow>
            (let p = length (promises w);
                 w1 = w\<lparr>promises := promises w @ [None],
                        inFlightResolver := Some p,
                        trustRequestPromise := Some p\<rparr>
             in case initiateRequest request w1 of
                  Inl e \<Rightarrow> (Rejected e, w1)
                | Inr w2 \<Rightarrow> (Future p, w2\<lparr>ctxWorkspaceTrustPendingRequest := True\<rparr>))))"

text \<open>\<^verbatim>\<open>resetWorkspaceTrust\<close> (lines 365 to 372).\<close>

definition resetWorkspaceTrust :: "TrustSystem \<Rightarrow> require_result \<times> TrustSystem" where
  "resetWorkspaceTrust w =
    (Resolved Unknown,
     if currentTrustState w \<noteq> Unknown then setEveryFolder (folders w) Unknown w else w)"

text \<open>
  The constructors of the three classes (lines 109 to 120 and 245 to 265) for given
  collaborators. Both context keys start at the defaults of lines 44 and 45; binding
  a key does not set it.
\<close>

definition newWorkspaceTrustService ::
  "IWorkspaceTrustStateInfo option \<Rightarrow> bool option \<Rightarrow> bool \<Rightarrow> string list \<Rightarrow> TrustSystem" where
  "newWorkspaceTrustService stored setting isEmpty fs =
    (let w0 = \<lparr>storage = stored, trustEnabledSetting = setting, workbenchEmpty = isEmpty,
               folders = fs, ctxWorkspaceTrustState = Unknown,
               ctxWorkspaceTrustPendingRequest = False,
               trustStateInfo = loadTrustInfo_typed stored, trustRequest = None,
               currentTrustState = Unknown, inFlightResolver = None,
               trustRequestPromise = None, promises = [], trace = []\<rparr>;
         st = calculateWorkspaceTrustState w0
     in w0\<lparr>currentTrustState := st, ctxWorkspaceTrustState := st\<rparr>)"

text \<open>
  The calls that reach the subsystem from outside, and one step of the system for
  each. A rejected \<^verbatim>\<open>initiateRequest\<close> throws before it assigns anything.
\<close>

datatype call =
    RequireWorkspaceTrust "IWorkspaceTrustRequest option"
  | ResetWorkspaceTrust
  | InitiateRequest "IWorkspaceTrustRequest option"
  | CompleteRequest "WorkspaceTrustState option"
  | StorageChangedElsewhere string "IWorkspaceTrustStateInfo option"

fun perform :: "call \<Rightarrow> TrustSystem \<Rightarrow> TrustSystem" where
  "perform (RequireWorkspaceTrust request) w = snd (requireWorkspaceTrust request w)"
| "perform ResetWorkspaceTrust w = snd (resetWorkspaceTrust w)"
| "perform (InitiateRequest request) w =
     (case initiateRequest request w of Inl e \<Rightarrow> w | Inr w' \<Rightarrow> w')"
| "perform (CompleteRequest decision) w = completeRequest decision w"
| "perform (StorageChangedElsewhere key v) w = storage_changedElsewhere key v w"

text \<open>What a caller that was handed \<open>r\<close> has received in state \<open>w\<close>, if anything yet.\<close>

fun received :: "require_result \<Rightarrow> TrustSystem \<Rightarrow> WorkspaceTrustState option" where
  "received (Resolved st) w = Some st"
| "received (Future p) w = (if p < length (promises w) then promises w ! p else None)"
| "received (Rejected e) w = None"

text \<open>The in-memory record set is what a load from storage would give.\<close>

definition in_sync :: "TrustSystem \<Rightarrow> bool" where
  "in_sync w = (trustStateInfo w = loadTrustInfo_typed (storage w))"


text \<open>
  The service's future and its resolver belong together: both are set or both are
  empty, and a future the service holds is a promise that is still pending.
\<close>

definition futurePending :: "TrustSystem \<Rightarrow> bool" where
  "futurePending w =
    (inFlightResolver w = trustRequestPromise w
     \<and> (case trustRequestPromise w of
          None \<Rightarrow> True
        | Some p \<Rightarrow> p < length (promises w) \<and> promises w ! p = None))"


text \<open>
  Vocabulary for the statements about the store: the record list that a call of
  \<open>setFolderTrustState\<close> leaves in memory, a run of such calls, the record sets
  written to storage along a trace, and the absence of \<open>Unknown\<close> records.
\<close>

definition nextLocalFolders :: "string \<Rightarrow> WorkspaceTrustState \<Rightarrow> TrustSystem \<Rightarrow> FolderTrustInfo list" where
  "nextLocalFolders folder st w =
    fst (updateLocalFolders folder st (localFolders (trustStateInfo w)))"

fun setFolderTrustStates ::
  "(string \<times> WorkspaceTrustState) list \<Rightarrow> TrustSystem \<Rightarrow> TrustSystem" where
  "setFolderTrustStates [] w = w"
| "setFolderTrustStates ((folder, st) # rest) w =
     setFolderTrustStates rest (setFolderTrustState folder st w)"

fun persisted :: "event list \<Rightarrow> IWorkspaceTrustStateInfo list" where
  "persisted [] = []"
| "persisted (StorageStore i # es) = i # persisted es"
| "persisted (e # es) = persisted es"

definition noUnknownRecord :: "IWorkspaceTrustStateInfo \<Rightarrow> bool" where
  "noUnknownRecord i = list_all (\<lambda>r. trustState r \<noteq> Unknown) (localFolders i)"

definition neverPersistedUnknown :: "TrustSystem \<Rightarrow> bool" where
  "neverPersistedUnknown w =
    (noUnknownRecord (trustStateInfo w) \<and> list_all noUnknownRecord (persisted (trace w)))"


section \<open>Properties of the aggregation\<close>

lemma aggregateFolders_eq:
  "aggregateFolders sts state =
    (if Untrusted \<in> set sts then Untrusted
     else if Unknown \<in> set sts then Unknown
     else (case state of None \<Rightarrow> if sts = [] then Unknown else Trusted | Some s \<Rightarrow> s))"
proof (induction sts arbitrary: state)
  case Nil
  show ?case by (simp split: option.split)
next
  case (Cons st rest)
  show ?case
    by (cases st) (auto simp: Cons.IH split: option.split)
qed

lemma calculateWorkspaceTrustState_folders_cong:
  "calculateWorkspaceTrustState (w\<lparr>folders := fs\<rparr>) =
    (if \<not> isWorkspaceTrustEnabled w then Trusted
     else if workbenchEmpty w then Trusted
     else aggregateFolders (map (\<lambda>folder. getFolderTrustState folder w) fs) None)"
  by (simp add: calculateWorkspaceTrustState_def isWorkspaceTrustEnabled_def
      getFolderTrustState_def)

text \<open>
  Claim C1. Every call of \<open>calculateWorkspaceTrustState\<close> returns \<open>Trusted\<close> when
  trust is not enabled, else \<open>Trusted\<close> when the workbench is empty; else, over the
  states the store gives for the workspace folders, \<open>Untrusted\<close> if one of them is
  \<open>Untrusted\<close>, else \<open>Unknown\<close> if one of them is \<open>Unknown\<close>, else \<open>Unknown\<close> when
  there is no folder at all, and \<open>Trusted\<close> otherwise.
\<close>

theorem calculateWorkspaceTrustState_priority:
  "calculateWorkspaceTrustState w =
    (if \<not> isWorkspaceTrustEnabled w then Trusted
     else if workbenchEmpty w then Trusted
     else if \<exists>folder \<in> set (folders w). getFolderTrustState folder w = Untrusted then Untrusted
     else if \<exists>folder \<in> set (folders w). getFolderTrustState folder w = Unknown then Unknown
     else if folders w = [] then Unknown
     else Trusted)"
  unfolding calculateWorkspaceTrustState_def aggregateFolders_eq
  by (auto simp: image_iff)

theorem calculateWorkspaceTrustState_priority_witness:
  "calculateWorkspaceTrustState
     (newWorkspaceTrustService
        (Some \<lparr>localFolders = [\<lparr>uri = ''file:///a'', trustState = Trusted\<rparr>]\<rparr>)
        (Some True) False [''file:///a'', ''file:///b'']) = Unknown
   \<and> calculateWorkspaceTrustState
     (newWorkspaceTrustService
        (Some \<lparr>localFolders = [\<lparr>uri = ''file:///a'', trustState = Trusted\<rparr>,
                                \<lparr>uri = ''file:///b'', trustState = Untrusted\<rparr>]\<rparr>)
        (Some True) False [''file:///a'', ''file:///b'']) = Untrusted
   \<and> calculateWorkspaceTrustState
     (newWorkspaceTrustService
        (Some \<lparr>localFolders = [\<lparr>uri = ''file:///b'', trustState = Untrusted\<rparr>]\<rparr>)
        None False [''file:///b'']) = Trusted
   \<and> calculateWorkspaceTrustState
     (newWorkspaceTrustService None (Some True) False []) = Unknown"
  by (simp add: calculateWorkspaceTrustState_priority newWorkspaceTrustService_def
      isWorkspaceTrustEnabled_def getFolderTrustState_def loadTrustInfo_typed_def)

text \<open>
  Claim C2. The aggregation does not depend on the order of its input: a sequence of
  folder trust states and any permutation of it aggregate to the same state, and so
  does the service's calculation when the workspace folders are permuted.
\<close>

theorem aggregation_order_independent:
  assumes "mset sts = mset sts'" and "mset fs = mset fs'"
  shows "aggregateFolders sts None = aggregateFolders sts' None
    \<and> calculateWorkspaceTrustState (w\<lparr>folders := fs\<rparr>)
        = calculateWorkspaceTrustState (w\<lparr>folders := fs'\<rparr>)"
proof -
  have perm: "aggregateFolders xs None = aggregateFolders ys None"
    if "mset xs = mset ys" for xs ys :: "WorkspaceTrustState list"
  proof -
    from that have "set xs = set ys" by (rule mset_eq_setD)
    moreover from that have "xs = [] \<longleftrightarrow> ys = []"
      by (metis mset_zero_iff)
    ultimately show ?thesis by (simp add: aggregateFolders_eq)
  qed
  have "mset (map (\<lambda>folder. getFolderTrustState folder w) fs)
      = mset (map (\<lambda>folder. getFolderTrustState folder w) fs')"
    using assms(2) by (metis mset_map)
  then have "aggregateFolders (map (\<lambda>folder. getFolderTrustState folder w) fs) None
      = aggregateFolders (map (\<lambda>folder. getFolderTrustState folder w) fs') None"
    by (rule perm)
  with perm [OF assms(1)] show ?thesis
    by (simp add: calculateWorkspaceTrustState_folders_cong)
qed

theorem aggregation_order_independent_witness:
  "mset [Trusted, Unknown] = mset [Unknown, Trusted]
   \<and> mset [''file:///a'', ''file:///b''] = mset [''file:///b'', ''file:///a'']
   \<and> aggregateFolders [Trusted, Unknown] None = aggregateFolders [Unknown, Trusted] None
   \<and> calculateWorkspaceTrustState
       ((newWorkspaceTrustService
          (Some \<lparr>localFolders = [\<lparr>uri = ''file:///a'', trustState = Trusted\<rparr>]\<rparr>)
          (Some True) False [])\<lparr>folders := [''file:///a'', ''file:///b'']\<rparr>)
     = calculateWorkspaceTrustState
       ((newWorkspaceTrustService
          (Some \<lparr>localFolders = [\<lparr>uri = ''file:///a'', trustState = Trusted\<rparr>]\<rparr>)
          (Some True) False [])\<lparr>folders := [''file:///b'', ''file:///a'']\<rparr>)"
proof -
  have h1: "mset [Trusted, Unknown] = mset [Unknown, Trusted]" by simp
  have h2: "mset [''file:///a'', ''file:///b''] = mset [''file:///b'', ''file:///a'']"
    by simp
  from aggregation_order_independent [OF h1 h2] h1 h2 show ?thesis by blast
qed

section \<open>Properties of the trust store\<close>

lemma markFolders_eq:
  "markFolders folder st fs found changed =
    (map (\<lambda>i. if uri i = folder then i\<lparr>trustState := st\<rparr> else i) fs,
     found \<or> (\<exists>i \<in> set fs. uri i = folder),
     changed \<or> (\<exists>i \<in> set fs. uri i = folder \<and> trustState i \<noteq> st))"
  by (induction fs arbitrary: found changed) auto

lemma findFolderTrust_absent:
  "folder \<notin> uri ` set fs \<Longrightarrow> findFolderTrust folder fs = Unknown"
  by (induction fs) auto

lemma findFolderTrust_marked:
  "folder \<in> uri ` set fs \<Longrightarrow>
   findFolderTrust folder (map (\<lambda>i. if uri i = folder then i\<lparr>trustState := st\<rparr> else i) fs) = st"
  by (induction fs) auto

lemma findFolderTrust_append_absent:
  "folder \<notin> uri ` set fs \<Longrightarrow> findFolderTrust folder (fs @ gs) = findFolderTrust folder gs"
  by (induction fs) auto

lemma filter_length_eq: "length (filter P xs) = length xs \<longleftrightarrow> filter P xs = xs"
  by (metis filter_True length_filter_le length_filter_less linorder_not_less)

lemma map_mark_eq:
  "map (\<lambda>i. if uri i = folder then i\<lparr>trustState := st\<rparr> else i) fs = fs
    \<longleftrightarrow> \<not> (\<exists>i \<in> set fs. uri i = folder \<and> trustState i \<noteq> st)"
proof (induction fs)
  case Nil
  show ?case by simp
next
  case (Cons i fs)
  have "i\<lparr>trustState := st\<rparr> = i \<longleftrightarrow> trustState i = st"
    by (metis FolderTrustInfo.select_convs(2) FolderTrustInfo.surjective
        FolderTrustInfo.update_convs(2))
  with Cons show ?case by auto
qed

text \<open>The pure step of the store, in closed form.\<close>

lemma updateLocalFolders_eq:
  "updateLocalFolders folder st fs =
    (if st = Unknown then
       (filter (\<lambda>i. uri i \<noteq> folder) fs, folder \<in> uri ` set fs)
     else if folder \<in> uri ` set fs then
       (map (\<lambda>i. if uri i = folder then i\<lparr>trustState := st\<rparr> else i) fs,
        \<exists>i \<in> set fs. uri i = folder \<and> trustState i \<noteq> st)
     else (fs @ [\<lparr>uri = folder, trustState = st\<rparr>], True))"
proof -
  have "length (filter (\<lambda>i. uri i \<noteq> folder) fs) \<noteq> length fs \<longleftrightarrow> folder \<in> uri ` set fs"
    unfolding filter_length_eq by (auto simp: filter_id_conv)
  moreover have "map (\<lambda>i. if uri i = folder then i\<lparr>trustState := st\<rparr> else i) fs = fs"
    if "folder \<notin> uri ` set fs"
    using that by (induction fs) auto
  ultimately show ?thesis
    by (auto simp: updateLocalFolders_def markFolders_eq Let_def)
qed

lemma updateLocalFolders_changed_iff:
  "snd (updateLocalFolders folder st fs) \<longleftrightarrow> fst (updateLocalFolders folder st fs) \<noteq> fs"
  by (auto simp: updateLocalFolders_eq map_mark_eq filter_id_conv)

lemma updateLocalFolders_unchanged_iff:
  "fst (updateLocalFolders folder st fs) = fs \<longleftrightarrow>
    (if st = Unknown then folder \<notin> uri ` set fs
     else folder \<in> uri ` set fs \<and> (\<forall>i \<in> set fs. uri i = folder \<longrightarrow> trustState i = st))"
  by (auto simp: updateLocalFolders_eq map_mark_eq filter_id_conv)

lemma findFolderTrust_updateLocalFolders:
  "findFolderTrust folder (fst (updateLocalFolders folder st fs)) = st"
  by (auto simp: updateLocalFolders_eq findFolderTrust_marked findFolderTrust_append_absent
      intro!: findFolderTrust_absent)

lemma findFolderTrust_other:
  assumes "other \<noteq> folder"
  shows "findFolderTrust other (filter (\<lambda>i. uri i \<noteq> folder) fs) = findFolderTrust other fs"
    and "findFolderTrust other
          (map (\<lambda>i. if uri i = folder then i\<lparr>trustState := st\<rparr> else i) fs)
         = findFolderTrust other fs"
    and "findFolderTrust other (fs @ [\<lparr>uri = folder, trustState = st\<rparr>])
         = findFolderTrust other fs"
  using assms by (induction fs) auto

lemma findFolderTrust_updateLocalFolders_other:
  "other \<noteq> folder \<Longrightarrow>
   findFolderTrust other (fst (updateLocalFolders folder st fs)) = findFolderTrust other fs"
  by (simp add: updateLocalFolders_eq findFolderTrust_other)

lemma updateLocalFolders_Unknown_absent:
  "folder \<notin> uri ` set (fst (updateLocalFolders folder Unknown fs))"
  by (auto simp: updateLocalFolders_eq)

lemma updateLocalFolders_no_Unknown:
  "\<forall>i \<in> set fs. trustState i \<noteq> Unknown \<Longrightarrow>
   \<forall>i \<in> set (fst (updateLocalFolders folder st fs)). trustState i \<noteq> Unknown"
  by (auto simp: updateLocalFolders_eq)

subsection \<open>The store inside the system\<close>

lemma calculateWorkspaceTrustState_frame [simp]:
  "calculateWorkspaceTrustState (w\<lparr>trace := tr\<rparr>) = calculateWorkspaceTrustState w"
  "calculateWorkspaceTrustState (w\<lparr>storage := s\<rparr>) = calculateWorkspaceTrustState w"
  "calculateWorkspaceTrustState (w\<lparr>currentTrustState := c\<rparr>) = calculateWorkspaceTrustState w"
  by (simp_all add: calculateWorkspaceTrustState_def isWorkspaceTrustEnabled_def
      getFolderTrustState_def)

lemma info_eq: "(i::IWorkspaceTrustStateInfo)\<lparr>localFolders := fs\<rparr> = \<lparr>localFolders = fs\<rparr>"
  by simp

lemma setFolderTrustState_eq:
  "setFolderTrustState folder st w =
    (if nextLocalFolders folder st w = localFolders (trustStateInfo w) then w
     else saveTrustInfo (w\<lparr>trustStateInfo := \<lparr>localFolders = nextLocalFolders folder st w\<rparr>\<rparr>))"
  by (cases "trustStateInfo w")
    (simp add: setFolderTrustState_def case_prod_beta updateLocalFolders_changed_iff
      nextLocalFolders_def Let_def)

lemmas calculate_defs =
  calculateWorkspaceTrustState_def isWorkspaceTrustEnabled_def getFolderTrustState_def

lemmas store_defs =
  setFolderTrustState_eq saveTrustInfo_def storage_store_def onDidChangeValue_def
  onDidStorageChange_def fireModelDidChangeTrustState_def set_currentTrustState_def
  loadTrustInfo_typed_def

lemma setFolderTrustState_unchanged:
  "nextLocalFolders folder st w = localFolders (trustStateInfo w) \<Longrightarrow>
   setFolderTrustState folder st w = w"
  by (simp add: setFolderTrustState_eq)

lemma setFolderTrustState_trustStateInfo:
  "trustStateInfo (setFolderTrustState folder st w) = \<lparr>localFolders = nextLocalFolders folder st w\<rparr>"
  by (cases "trustStateInfo w") (auto simp: store_defs Let_def)

lemma setFolderTrustState_frame:
  "folders (setFolderTrustState folder st w) = folders w"
  "trustEnabledSetting (setFolderTrustState folder st w) = trustEnabledSetting w"
  "workbenchEmpty (setFolderTrustState folder st w) = workbenchEmpty w"
  "ctxWorkspaceTrustState (setFolderTrustState folder st w) = ctxWorkspaceTrustState w"
  "ctxWorkspaceTrustPendingRequest (setFolderTrustState folder st w) = ctxWorkspaceTrustPendingRequest w"
  "trustRequest (setFolderTrustState folder st w) = trustRequest w"
  "inFlightResolver (setFolderTrustState folder st w) = inFlightResolver w"
  "trustRequestPromise (setFolderTrustState folder st w) = trustRequestPromise w"
  "promises (setFolderTrustState folder st w) = promises w"
  by (simp_all add: store_defs Let_def)

lemma setFolderTrustState_changed:
  assumes "nextLocalFolders folder st w \<noteq> localFolders (trustStateInfo w)" and "in_sync w"
  shows "storage (setFolderTrustState folder st w) = Some \<lparr>localFolders = nextLocalFolders folder st w\<rparr>"
    and "trace (setFolderTrustState folder st w) =
      trace w @ [StorageStore \<lparr>localFolders = nextLocalFolders folder st w\<rparr>, ModelDidChangeTrustState]
        @ (let st' = calculateWorkspaceTrustState
                      (w\<lparr>trustStateInfo := \<lparr>localFolders = nextLocalFolders folder st w\<rparr>\<rparr>)
           in if currentTrustState w = st' then []
              else [DidChangeTrustState (currentTrustState w) st'])"
proof -
  have ne: "storage w \<noteq> Some \<lparr>localFolders = nextLocalFolders folder st w\<rparr>"
    using assms by (auto simp: in_sync_def loadTrustInfo_typed_def)
  show "storage (setFolderTrustState folder st w) = Some \<lparr>localFolders = nextLocalFolders folder st w\<rparr>"
    using assms(1) ne by (simp add: store_defs Let_def)
  show "trace (setFolderTrustState folder st w) =
      trace w @ [StorageStore \<lparr>localFolders = nextLocalFolders folder st w\<rparr>, ModelDidChangeTrustState]
        @ (let st' = calculateWorkspaceTrustState
                      (w\<lparr>trustStateInfo := \<lparr>localFolders = nextLocalFolders folder st w\<rparr>\<rparr>)
           in if currentTrustState w = st' then []
              else [DidChangeTrustState (currentTrustState w) st'])"
    using assms(1) ne by (simp add: store_defs calculate_defs Let_def)
qed

lemma setFolderTrustState_in_sync:
  "in_sync w \<Longrightarrow> in_sync (setFolderTrustState folder st w)"
  by (auto simp: in_sync_def store_defs Let_def)

lemma persisted_append [simp]: "persisted (es @ fs) = persisted es @ persisted fs"
  by (induction es rule: persisted.induct) simp_all

lemma setFolderTrustState_persisted:
  "persisted (trace (setFolderTrustState folder st w)) = persisted (trace w) \<or>
   persisted (trace (setFolderTrustState folder st w))
     = persisted (trace w) @ [\<lparr>localFolders = nextLocalFolders folder st w\<rparr>]"
  by (simp add: store_defs Let_def)

lemma setFolderTrustState_neverPersistedUnknown:
  assumes "neverPersistedUnknown w"
  shows "neverPersistedUnknown (setFolderTrustState folder st w)"
proof -
  from assms have "\<forall>i \<in> set (localFolders (trustStateInfo w)). trustState i \<noteq> Unknown"
    by (simp add: neverPersistedUnknown_def noUnknownRecord_def list_all_iff)
  then have "noUnknownRecord \<lparr>localFolders = nextLocalFolders folder st w\<rparr>"
    using updateLocalFolders_no_Unknown [of "localFolders (trustStateInfo w)" folder st]
    by (simp add: noUnknownRecord_def list_all_iff nextLocalFolders_def)
  with assms setFolderTrustState_persisted [of folder st w] show ?thesis
    by (auto simp: neverPersistedUnknown_def setFolderTrustState_trustStateInfo)
qed

lemma newWorkspaceTrustService_in_sync:
  "in_sync (newWorkspaceTrustService stored setting isEmpty fs)"
  by (simp add: in_sync_def newWorkspaceTrustService_def Let_def)

lemma newWorkspaceTrustService_neverPersistedUnknown:
  "neverPersistedUnknown (newWorkspaceTrustService None setting isEmpty fs)"
  by (simp add: neverPersistedUnknown_def noUnknownRecord_def newWorkspaceTrustService_def
      loadTrustInfo_typed_def Let_def)

lemma setFolderTrustStates_neverPersistedUnknown:
  "neverPersistedUnknown w \<Longrightarrow> neverPersistedUnknown (setFolderTrustStates calls w)"
  by (induction calls w rule: setFolderTrustStates.induct)
    (simp_all add: setFolderTrustState_neverPersistedUnknown)

lemma setEveryFolder_in_sync: "in_sync w \<Longrightarrow> in_sync (setEveryFolder fs st w)"
  by (induction fs arbitrary: w) (simp_all add: setFolderTrustState_in_sync)

lemma findFolderTrust_distinct:
  "distinct (map uri fs) \<Longrightarrow> i \<in> set fs \<Longrightarrow> findFolderTrust (uri i) fs = trustState i"
  by (induction fs) (auto simp: image_iff)

lemma setFolderTrustState_current:
  assumes "distinct (map uri (localFolders (trustStateInfo w)))"
    and "noUnknownRecord (trustStateInfo w)"
    and "getFolderTrustState folder w = st"
  shows "setFolderTrustState folder st w = w"
proof -
  let ?fs = "localFolders (trustStateInfo w)"
  have known: "\<forall>i \<in> set ?fs. trustState i \<noteq> Unknown"
    using assms(2) by (simp add: noUnknownRecord_def list_all_iff)
  have same: "trustState i = st" if "i \<in> set ?fs" "uri i = folder" for i
    using findFolderTrust_distinct [OF assms(1) that(1)] that(2) assms(3)
    by (simp add: getFolderTrustState_def)
  have "folder \<in> uri ` set ?fs \<longleftrightarrow> st \<noteq> Unknown"
  proof
    assume "folder \<in> uri ` set ?fs"
    then obtain i where "i \<in> set ?fs" "uri i = folder" by auto
    with same known show "st \<noteq> Unknown" by auto
  next
    assume "st \<noteq> Unknown"
    with assms(3) show "folder \<in> uri ` set ?fs"
      using findFolderTrust_absent [of folder ?fs] by (auto simp: getFolderTrustState_def)
  qed
  with same have "nextLocalFolders folder st w = ?fs"
    unfolding nextLocalFolders_def updateLocalFolders_unchanged_iff by auto
  then show ?thesis by (rule setFolderTrustState_unchanged)
qed

lemma map_uri_mark:
  "map (uri \<circ> (\<lambda>i. if uri i = folder then i\<lparr>trustState := st\<rparr> else i)) fs = map uri fs"
  by (induction fs) auto

lemma updateLocalFolders_distinct:
  "distinct (map uri fs) \<Longrightarrow> distinct (map uri (fst (updateLocalFolders folder st fs)))"
  by (auto simp: updateLocalFolders_eq distinct_map_filter map_uri_mark)

lemma updateLocalFolders_Unknown_old:
  "r \<in> set (fst (updateLocalFolders folder st fs)) \<Longrightarrow> trustState r = Unknown \<Longrightarrow> r \<in> set fs"
  by (auto simp: updateLocalFolders_eq split: if_splits)

lemmas eval_defs =
  newWorkspaceTrustService_def store_defs calculate_defs nextLocalFolders_def
  updateLocalFolders_def in_sync_def neverPersistedUnknown_def noUnknownRecord_def Let_def

text \<open>
  Claim C7. Round trip through the store: after \<open>setFolderTrustState folder Trusted\<close>
  (and likewise for any state) \<open>getFolderTrustState folder\<close> returns that state; after
  \<open>setFolderTrustState folder Unknown\<close> it returns \<open>Unknown\<close> and neither the record
  set in memory nor, for a store in step with its storage, the persisted one has a
  record for the folder; and a folder without a record reads as \<open>Unknown\<close>.
\<close>

theorem trust_store_round_trip:
  "getFolderTrustState folder (setFolderTrustState folder Trusted w) = Trusted
   \<and> getFolderTrustState folder (setFolderTrustState folder st w) = st
   \<and> getFolderTrustState folder (setFolderTrustState folder Unknown w) = Unknown
   \<and> folder \<notin> uri ` set (localFolders (trustStateInfo (setFolderTrustState folder Unknown w)))
   \<and> (in_sync w \<longrightarrow>
        folder \<notin> uri ` set (localFolders
          (loadTrustInfo_typed (storage (setFolderTrustState folder Unknown w)))))
   \<and> (folder \<notin> uri ` set (localFolders (trustStateInfo w)) \<longrightarrow>
        getFolderTrustState folder w = Unknown)"
proof -
  have get: "getFolderTrustState folder (setFolderTrustState folder s w) = s" for s
    by (simp add: getFolderTrustState_def setFolderTrustState_trustStateInfo
        nextLocalFolders_def findFolderTrust_updateLocalFolders)
  have mem: "folder \<notin> uri ` set (localFolders (trustStateInfo (setFolderTrustState folder Unknown w)))"
    using updateLocalFolders_Unknown_absent [of folder "localFolders (trustStateInfo w)"]
    by (simp add: setFolderTrustState_trustStateInfo nextLocalFolders_def)
  have sto: "folder \<notin> uri ` set (localFolders
          (loadTrustInfo_typed (storage (setFolderTrustState folder Unknown w))))"
    if "in_sync w"
  proof -
    from that have "in_sync (setFolderTrustState folder Unknown w)"
      by (rule setFolderTrustState_in_sync)
    with mem show ?thesis by (simp add: in_sync_def)
  qed
  have absent: "getFolderTrustState folder w = Unknown"
    if "folder \<notin> uri ` set (localFolders (trustStateInfo w))"
    using that by (simp add: getFolderTrustState_def findFolderTrust_absent)
  from get mem sto absent show ?thesis by blast
qed

theorem trust_store_round_trip_witness:
  "in_sync (newWorkspaceTrustService None (Some True) False [''file:///a''])
   \<and> ''file:///a'' \<notin> uri ` set (localFolders (trustStateInfo
        (newWorkspaceTrustService None (Some True) False [''file:///a''])))
   \<and> getFolderTrustState ''file:///a''
        (newWorkspaceTrustService None (Some True) False [''file:///a'']) = Unknown
   \<and> getFolderTrustState ''file:///a''
        (setFolderTrustState ''file:///a'' Trusted
          (newWorkspaceTrustService None (Some True) False [''file:///a''])) = Trusted
   \<and> storage (setFolderTrustState ''file:///a'' Trusted
          (newWorkspaceTrustService None (Some True) False [''file:///a'']))
        = Some \<lparr>localFolders = [\<lparr>uri = ''file:///a'', trustState = Trusted\<rparr>]\<rparr>
   \<and> in_sync (setFolderTrustState ''file:///a'' Trusted
          (newWorkspaceTrustService None (Some True) False [''file:///a'']))
   \<and> getFolderTrustState ''file:///a''
        (setFolderTrustState ''file:///a'' Unknown
          (setFolderTrustState ''file:///a'' Trusted
            (newWorkspaceTrustService None (Some True) False [''file:///a'']))) = Unknown
   \<and> ''file:///a'' \<notin> uri ` set (localFolders (loadTrustInfo_typed (storage
        (setFolderTrustState ''file:///a'' Unknown
          (setFolderTrustState ''file:///a'' Trusted
            (newWorkspaceTrustService None (Some True) False [''file:///a''])))))) "
  using
    trust_store_round_trip [of "''file:///a''"
      "newWorkspaceTrustService None (Some True) False [''file:///a'']" Trusted]
    trust_store_round_trip [of "''file:///a''"
      "setFolderTrustState ''file:///a'' Trusted
        (newWorkspaceTrustService None (Some True) False [''file:///a''])" Unknown]
  by (simp add: eval_defs)

text \<open>
  Claim C8, as stated, fails in its last part: the store writes the record list it
  holds as a whole, so an \<open>Unknown\<close> record that it was loaded with is persisted
  again by the next effective mutation. A service starts from an absent payload with
  one folder; another window writes a record set that has an \<open>Unknown\<close> record for a
  second folder, which the store loads on the storage change event; a trust request is
  then completed with \<open>Untrusted\<close>, and the record set written holds the \<open>Unknown\<close>
  record.
\<close>

theorem unknown_record_persisted_counterexample:
  "persisted (trace
     (perform (CompleteRequest (Some Untrusted))
       (perform (RequireWorkspaceTrust (Some \<lparr>immediate = False, message = None\<rparr>))
         (perform (StorageChangedElsewhere ''content.trust.model.key''
              (Some \<lparr>localFolders = [\<lparr>uri = ''file:///a'', trustState = Unknown\<rparr>]\<rparr>))
           (newWorkspaceTrustService None (Some True) False [''file:///c''])))))
     = [\<lparr>localFolders = [\<lparr>uri = ''file:///a'', trustState = Unknown\<rparr>,
                           \<lparr>uri = ''file:///c'', trustState = Untrusted\<rparr>]\<rparr>]
   \<and> \<not> noUnknownRecord
        \<lparr>localFolders = [\<lparr>uri = ''file:///a'', trustState = Unknown\<rparr>,
                          \<lparr>uri = ''file:///c'', trustState = Untrusted\<rparr>]\<rparr>"
  by (simp add: requireWorkspaceTrust_def initiateRequest_def completeRequest_def
      onTrustRequestCompleted_def resolvePromise_def requestImmediate_def
      storage_changedElsewhere_def store_defs WORKSPACE_TRUST_STORAGE_KEY_def
      newWorkspaceTrustService_def calculate_defs nextLocalFolders_def updateLocalFolders_def
      noUnknownRecord_def Let_def)

text \<open>
  Claim C8, amended. Effects of a mutation of the store. A call of
  \<open>setFolderTrustState\<close> that leaves the record list as it was (the state asked for is
  the one every record of the folder has, or \<open>Unknown\<close> is asked for a folder without
  a record) changes nothing at all: no write, no notification. In a store with one
  record for a folder at most and no \<open>Unknown\<close> record, setting a folder to the state
  it reads as is such a call. A call that changes the list, on a store in step with its
  storage, writes the whole new record set once and fires the model's change
  notification once after it (followed by the service's own event when the aggregate
  changed). No call adds a record with state \<open>Unknown\<close>: an \<open>Unknown\<close> record in the
  list a call leaves was in the list before it. So a store that holds and has persisted
  no \<open>Unknown\<close> record stays so, and whatever calls are made on a store that started
  from an absent payload, no record set it writes has an \<open>Unknown\<close> record.
\<close>

theorem setFolderTrustState_effects:
  "(nextLocalFolders folder st w = localFolders (trustStateInfo w)
      \<longleftrightarrow> (if st = Unknown then folder \<notin> uri ` set (localFolders (trustStateInfo w))
           else folder \<in> uri ` set (localFolders (trustStateInfo w))
             \<and> (\<forall>i \<in> set (localFolders (trustStateInfo w)).
                   uri i = folder \<longrightarrow> trustState i = st)))
   \<and> (nextLocalFolders folder st w = localFolders (trustStateInfo w) \<longrightarrow>
        setFolderTrustState folder st w = w)
   \<and> (distinct (map uri (localFolders (trustStateInfo w)))
        \<and> noUnknownRecord (trustStateInfo w) \<and> getFolderTrustState folder w = st \<longrightarrow>
        setFolderTrustState folder st w = w)
   \<and> (nextLocalFolders folder st w \<noteq> localFolders (trustStateInfo w) \<and> in_sync w \<longrightarrow>
        storage (setFolderTrustState folder st w)
          = Some \<lparr>localFolders = nextLocalFolders folder st w\<rparr>
        \<and> trace (setFolderTrustState folder st w) =
            trace w
            @ [StorageStore \<lparr>localFolders = nextLocalFolders folder st w\<rparr>,
               ModelDidChangeTrustState]
            @ (let st' = calculateWorkspaceTrustState
                          (w\<lparr>trustStateInfo := \<lparr>localFolders = nextLocalFolders folder st w\<rparr>\<rparr>)
               in if currentTrustState w = st' then []
                  else [DidChangeTrustState (currentTrustState w) st']))
   \<and> (\<forall>r \<in> set (nextLocalFolders folder st w).
        trustState r = Unknown \<longrightarrow> r \<in> set (localFolders (trustStateInfo w)))
   \<and> (neverPersistedUnknown w \<longrightarrow> neverPersistedUnknown (setFolderTrustState folder st w))
   \<and> list_all noUnknownRecord
        (persisted (trace (setFolderTrustStates calls
           (newWorkspaceTrustService None setting isEmpty fs))))"
  using updateLocalFolders_unchanged_iff [of folder st "localFolders (trustStateInfo w)"]
    setFolderTrustState_unchanged [of folder st w]
    setFolderTrustState_current [of w folder st]
    setFolderTrustState_changed [of folder st w]
    setFolderTrustState_neverPersistedUnknown [of w folder st]
    updateLocalFolders_Unknown_old [of _ folder st "localFolders (trustStateInfo w)"]
    setFolderTrustStates_neverPersistedUnknown
      [OF newWorkspaceTrustService_neverPersistedUnknown, of calls setting isEmpty fs]
  unfolding nextLocalFolders_def [symmetric] neverPersistedUnknown_def
  by blast

theorem setFolderTrustState_effects_witness:
  "in_sync (newWorkspaceTrustService None (Some True) False [''file:///a''])
   \<and> neverPersistedUnknown (newWorkspaceTrustService None (Some True) False [''file:///a''])
   \<and> nextLocalFolders ''file:///a'' Trusted
        (newWorkspaceTrustService None (Some True) False [''file:///a''])
      \<noteq> localFolders (trustStateInfo
        (newWorkspaceTrustService None (Some True) False [''file:///a'']))
   \<and> storage (setFolderTrustState ''file:///a'' Trusted
        (newWorkspaceTrustService None (Some True) False [''file:///a'']))
      = Some \<lparr>localFolders = [\<lparr>uri = ''file:///a'', trustState = Trusted\<rparr>]\<rparr>
   \<and> trace (setFolderTrustState ''file:///a'' Trusted
        (newWorkspaceTrustService None (Some True) False [''file:///a'']))
      = [StorageStore \<lparr>localFolders = [\<lparr>uri = ''file:///a'', trustState = Trusted\<rparr>]\<rparr>,
         ModelDidChangeTrustState, DidChangeTrustState Unknown Trusted]
   \<and> neverPersistedUnknown (setFolderTrustState ''file:///a'' Trusted
        (newWorkspaceTrustService None (Some True) False [''file:///a'']))
   \<and> nextLocalFolders ''file:///a'' Unknown
        (newWorkspaceTrustService None (Some True) False [''file:///a''])
      = localFolders (trustStateInfo
        (newWorkspaceTrustService None (Some True) False [''file:///a'']))
   \<and> setFolderTrustState ''file:///a'' Unknown
        (newWorkspaceTrustService None (Some True) False [''file:///a''])
      = newWorkspaceTrustService None (Some True) False [''file:///a'']
   \<and> getFolderTrustState ''file:///a''
        (newWorkspaceTrustService None (Some True) False [''file:///a'']) = Unknown
   \<and> persisted (trace (setFolderTrustStates
          [(''file:///a'', Trusted), (''file:///a'', Trusted), (''file:///a'', Unknown)]
          (newWorkspaceTrustService None (Some True) False [''file:///a''])))
      = [\<lparr>localFolders = [\<lparr>uri = ''file:///a'', trustState = Trusted\<rparr>]\<rparr>,
         \<lparr>localFolders = []\<rparr>]"
  using
    setFolderTrustState_effects [of "''file:///a''" Trusted
      "newWorkspaceTrustService None (Some True) False [''file:///a'']"]
    setFolderTrustState_effects [of "''file:///a''" Unknown
      "newWorkspaceTrustService None (Some True) False [''file:///a'']"]
  by (simp add: eval_defs)

section \<open>Properties of the request model and the service\<close>

lemmas service_defs =
  requireWorkspaceTrust_def initiateRequest_def completeRequest_def
  onTrustRequestCompleted_def resolvePromise_def requestImmediate_def
  resetWorkspaceTrust_def storage_changedElsewhere_def

lemma setEveryFolder_frame:
  "folders (setEveryFolder fs st w) = folders w"
  "ctxWorkspaceTrustState (setEveryFolder fs st w) = ctxWorkspaceTrustState w"
  "ctxWorkspaceTrustPendingRequest (setEveryFolder fs st w) = ctxWorkspaceTrustPendingRequest w"
  "trustRequest (setEveryFolder fs st w) = trustRequest w"
  "inFlightResolver (setEveryFolder fs st w) = inFlightResolver w"
  "trustRequestPromise (setEveryFolder fs st w) = trustRequestPromise w"
  "promises (setEveryFolder fs st w) = promises w"
  by (induction fs arbitrary: w; simp add: setFolderTrustState_frame)+

lemma storage_changedElsewhere_frame:
  "ctxWorkspaceTrustPendingRequest (storage_changedElsewhere key v w) = ctxWorkspaceTrustPendingRequest w"
  "inFlightResolver (storage_changedElsewhere key v w) = inFlightResolver w"
  "trustRequestPromise (storage_changedElsewhere key v w) = trustRequestPromise w"
  "promises (storage_changedElsewhere key v w) = promises w"
  by (simp_all add: storage_changedElsewhere_def store_defs Let_def)

text \<open>
  Claim C6. The transition rule of the request model. With a request pending, the
  slot is replaced exactly when the new request is immediate and the pending one is
  not, and the initiated event is then fired once; every other call leaves the whole
  state as it was and fires nothing (it returns early, or throws before any
  assignment when the new request is undefined). With no request pending the call is
  accepted: the slot takes the request and the event is fired once.
\<close>

theorem initiateRequest_transition:
  "(trustRequest w = None \<longrightarrow>
      initiateRequest request w
        = Inr (w\<lparr>trustRequest := request, trace := trace w @ [DidInitiateRequest]\<rparr>))
   \<and> (\<forall>pending. trustRequest w = Some pending \<longrightarrow>
        (requestImmediate request \<and> \<not> immediate pending \<longrightarrow>
           initiateRequest request w
             = Inr (w\<lparr>trustRequest := request, trace := trace w @ [DidInitiateRequest]\<rparr>))
        \<and> (\<not> (requestImmediate request \<and> \<not> immediate pending) \<longrightarrow>
             perform (InitiateRequest request) w = w
             \<and> initiateRequest request w = (if request = None then Inl TypeError else Inr w)))"
  by (auto simp: initiateRequest_def requestImmediate_def Let_def split: option.splits)

theorem initiateRequest_transition_witness:
  "trustRequest (newWorkspaceTrustService None (Some True) False [''file:///a'']) = None
   \<and> initiateRequest (Some \<lparr>immediate = False, message = None\<rparr>)
        (newWorkspaceTrustService None (Some True) False [''file:///a''])
      = Inr ((newWorkspaceTrustService None (Some True) False [''file:///a''])
               \<lparr>trustRequest := Some \<lparr>immediate = False, message = None\<rparr>,
                trace := [DidInitiateRequest]\<rparr>)
   \<and> initiateRequest (Some \<lparr>immediate = True, message = None\<rparr>)
        ((newWorkspaceTrustService None (Some True) False [''file:///a''])
               \<lparr>trustRequest := Some \<lparr>immediate = False, message = None\<rparr>,
                trace := [DidInitiateRequest]\<rparr>)
      = Inr ((newWorkspaceTrustService None (Some True) False [''file:///a''])
               \<lparr>trustRequest := Some \<lparr>immediate = True, message = None\<rparr>,
                trace := [DidInitiateRequest, DidInitiateRequest]\<rparr>)
   \<and> initiateRequest (Some \<lparr>immediate = False, message = Some ''again''\<rparr>)
        ((newWorkspaceTrustService None (Some True) False [''file:///a''])
               \<lparr>trustRequest := Some \<lparr>immediate = False, message = None\<rparr>,
                trace := [DidInitiateRequest]\<rparr>)
      = Inr ((newWorkspaceTrustService None (Some True) False [''file:///a''])
               \<lparr>trustRequest := Some \<lparr>immediate = False, message = None\<rparr>,
                trace := [DidInitiateRequest]\<rparr>)"
  using
    initiateRequest_transition [of
      "newWorkspaceTrustService None (Some True) False [''file:///a'']"
      "Some \<lparr>immediate = False, message = None\<rparr>"]
    initiateRequest_transition [of
      "(newWorkspaceTrustService None (Some True) False [''file:///a''])
               \<lparr>trustRequest := Some \<lparr>immediate = False, message = None\<rparr>,
                trace := [DidInitiateRequest]\<rparr>"
      "Some \<lparr>immediate = True, message = None\<rparr>"]
    initiateRequest_transition [of
      "(newWorkspaceTrustService None (Some True) False [''file:///a''])
               \<lparr>trustRequest := Some \<lparr>immediate = False, message = None\<rparr>,
                trace := [DidInitiateRequest]\<rparr>"
      "Some \<lparr>immediate = False, message = Some ''again''\<rparr>"]
  by (simp add: newWorkspaceTrustService_def requestImmediate_def Let_def)

text \<open>
  Claim C5. The fast paths of \<open>requireWorkspaceTrust\<close>. When the cached aggregate is
  \<open>Trusted\<close> the call hands back \<open>Trusted\<close> at once, and when it is \<open>Untrusted\<close> and
  the request is not immediate (or undefined) it hands back \<open>Untrusted\<close> at once; in
  both cases the state is returned as it was, so no request is initiated, no event is
  fired and no promise is made.
\<close>

theorem requireWorkspaceTrust_fast_paths:
  "(currentTrustState w = Trusted \<longrightarrow>
      requireWorkspaceTrust request w = (Resolved Trusted, w))
   \<and> (currentTrustState w = Untrusted \<and> \<not> requestImmediate request \<longrightarrow>
      requireWorkspaceTrust request w = (Resolved Untrusted, w))"
  by (simp add: requireWorkspaceTrust_def)

theorem requireWorkspaceTrust_fast_paths_witness:
  "currentTrustState (newWorkspaceTrustService
      (Some \<lparr>localFolders = [\<lparr>uri = ''file:///a'', trustState = Trusted\<rparr>]\<rparr>)
      (Some True) False [''file:///a'']) = Trusted
   \<and> fst (requireWorkspaceTrust (Some \<lparr>immediate = True, message = None\<rparr>)
       (newWorkspaceTrustService
         (Some \<lparr>localFolders = [\<lparr>uri = ''file:///a'', trustState = Trusted\<rparr>]\<rparr>)
         (Some True) False [''file:///a''])) = Resolved Trusted
   \<and> trace (snd (requireWorkspaceTrust (Some \<lparr>immediate = True, message = None\<rparr>)
       (newWorkspaceTrustService
         (Some \<lparr>localFolders = [\<lparr>uri = ''file:///a'', trustState = Trusted\<rparr>]\<rparr>)
         (Some True) False [''file:///a'']))) = []
   \<and> currentTrustState (newWorkspaceTrustService
      (Some \<lparr>localFolders = [\<lparr>uri = ''file:///a'', trustState = Untrusted\<rparr>]\<rparr>)
      (Some True) False [''file:///a'']) = Untrusted
   \<and> \<not> requestImmediate (Some \<lparr>immediate = False, message = None\<rparr>)
   \<and> fst (requireWorkspaceTrust (Some \<lparr>immediate = False, message = None\<rparr>)
       (newWorkspaceTrustService
         (Some \<lparr>localFolders = [\<lparr>uri = ''file:///a'', trustState = Untrusted\<rparr>]\<rparr>)
         (Some True) False [''file:///a''])) = Resolved Untrusted
   \<and> trace (snd (requireWorkspaceTrust (Some \<lparr>immediate = False, message = None\<rparr>)
       (newWorkspaceTrustService
         (Some \<lparr>localFolders = [\<lparr>uri = ''file:///a'', trustState = Untrusted\<rparr>]\<rparr>)
         (Some True) False [''file:///a'']))) = []"
  using
    requireWorkspaceTrust_fast_paths [of
      "newWorkspaceTrustService
         (Some \<lparr>localFolders = [\<lparr>uri = ''file:///a'', trustState = Trusted\<rparr>]\<rparr>)
         (Some True) False [''file:///a'']"
      "Some \<lparr>immediate = True, message = None\<rparr>"]
    requireWorkspaceTrust_fast_paths [of
      "newWorkspaceTrustService
         (Some \<lparr>localFolders = [\<lparr>uri = ''file:///a'', trustState = Untrusted\<rparr>]\<rparr>)
         (Some True) False [''file:///a'']"
      "Some \<lparr>immediate = False, message = None\<rparr>"]
  by (simp add: newWorkspaceTrustService_def calculate_defs loadTrustInfo_typed_def
      requestImmediate_def Let_def)

lemma completeRequest_promises:
  assumes "inFlightResolver w = Some p" and "p < length (promises w)" and "promises w ! p = None"
  shows "promises (completeRequest decision w)
      = (promises w)[p := Some (case decision of None \<Rightarrow> currentTrustState w | Some st \<Rightarrow> st)]"
    and "trustRequestPromise (completeRequest decision w) = None"
    and "inFlightResolver (completeRequest decision w) = None"
  using assms
  by (simp_all add: completeRequest_def onTrustRequestCompleted_def resolvePromise_def
      setEveryFolder_frame Let_def split: option.split)

text \<open>
  Claim C3, as stated, fails: a pending future does not make every further call
  return it, because the two fast paths are tested first. With one untrusted folder,
  an immediate request makes the future; a following request that is not immediate is
  answered \<open>Untrusted\<close> at once and does not get the future.
\<close>

theorem single_flight_counterexample:
  "trustRequestPromise
     (snd (requireWorkspaceTrust (Some \<lparr>immediate = True, message = None\<rparr>)
        (newWorkspaceTrustService
          (Some \<lparr>localFolders = [\<lparr>uri = ''file:///a'', trustState = Untrusted\<rparr>]\<rparr>)
          (Some True) False [''file:///a'']))) = Some 0
   \<and> fst (requireWorkspaceTrust (Some \<lparr>immediate = False, message = None\<rparr>)
       (snd (requireWorkspaceTrust (Some \<lparr>immediate = True, message = None\<rparr>)
          (newWorkspaceTrustService
            (Some \<lparr>localFolders = [\<lparr>uri = ''file:///a'', trustState = Untrusted\<rparr>]\<rparr>)
            (Some True) False [''file:///a''])))) = Resolved Untrusted
   \<and> fst (requireWorkspaceTrust (Some \<lparr>immediate = False, message = None\<rparr>)
       (snd (requireWorkspaceTrust (Some \<lparr>immediate = True, message = None\<rparr>)
          (newWorkspaceTrustService
            (Some \<lparr>localFolders = [\<lparr>uri = ''file:///a'', trustState = Untrusted\<rparr>]\<rparr>)
            (Some True) False [''file:///a''])))) \<noteq> Future 0"
  by (simp add: service_defs newWorkspaceTrustService_def calculate_defs
      loadTrustInfo_typed_def Let_def)

text \<open>
  Claim C3, amended. If a pending future exists and neither fast path applies (the
  cached aggregate is not \<open>Trusted\<close>, and it is not \<open>Untrusted\<close> with a request that
  is not immediate), the call returns that same future and makes no second promise or
  resolver. If moreover the new request is immediate and the request model holds a
  request that is not, \<open>initiateRequest\<close> takes effect (the slot takes the new
  request and the initiated event is fired once); otherwise the state is returned as
  it was. When the pending request is then completed, the shared future holds one
  value, the decision or else the cached aggregate, which is what every caller that
  was handed the future receives, and the service keeps no future.
\<close>

theorem single_flight:
  assumes "trustRequestPromise w = Some p"
    and "currentTrustState w \<noteq> Trusted"
    and "\<not> (currentTrustState w = Untrusted \<and> \<not> requestImmediate request)"
  shows "fst (requireWorkspaceTrust request w) = Future p
    \<and> trustRequestPromise (snd (requireWorkspaceTrust request w)) = Some p
    \<and> inFlightResolver (snd (requireWorkspaceTrust request w)) = inFlightResolver w
    \<and> promises (snd (requireWorkspaceTrust request w)) = promises w
    \<and> snd (requireWorkspaceTrust request w) =
        (if requestImmediate request
            \<and> (\<exists>pending. trustRequest w = Some pending \<and> \<not> immediate pending)
         then w\<lparr>trustRequest := request, trace := trace w @ [DidInitiateRequest]\<rparr>
         else w)
    \<and> (inFlightResolver w = Some p \<and> p < length (promises w) \<and> promises w ! p = None \<longrightarrow>
         received (fst (requireWorkspaceTrust request w))
           (completeRequest decision (snd (requireWorkspaceTrust request w)))
           = Some (case decision of None \<Rightarrow> currentTrustState w | Some st \<Rightarrow> st)
         \<and> received (Future p)
           (completeRequest decision (snd (requireWorkspaceTrust request w)))
           = Some (case decision of None \<Rightarrow> currentTrustState w | Some st \<Rightarrow> st)
         \<and> trustRequestPromise
             (completeRequest decision (snd (requireWorkspaceTrust request w))) = None)"
proof -
  define w' where "w' =
    (if requestImmediate request
        \<and> (\<exists>pending. trustRequest w = Some pending \<and> \<not> immediate pending)
     then w\<lparr>trustRequest := request, trace := trace w @ [DidInitiateRequest]\<rparr>
     else w)"
  have req: "requireWorkspaceTrust request w = (Future p, w')"
    using assms
    by (auto simp: w'_def requireWorkspaceTrust_def initiateRequest_def requestImmediate_def
        Let_def split: option.splits)
  have same: "inFlightResolver w' = inFlightResolver w" "promises w' = promises w"
    "trustRequestPromise w' = Some p" "currentTrustState w' = currentTrustState w"
    using assms(1) by (simp_all add: w'_def)
  have compl:
    "received (Future p) (completeRequest decision w')
       = Some (case decision of None \<Rightarrow> currentTrustState w | Some st \<Rightarrow> st)
     \<and> trustRequestPromise (completeRequest decision w') = None"
    if pending: "inFlightResolver w = Some p \<and> p < length (promises w) \<and> promises w ! p = None"
  proof -
    from pending same have pre: "inFlightResolver w' = Some p" "p < length (promises w')"
      "promises w' ! p = None"
      by simp_all
    have "promises (completeRequest decision w')
        = (promises w)[p := Some (case decision of None \<Rightarrow> currentTrustState w | Some st \<Rightarrow> st)]"
      using completeRequest_promises(1) [OF pre, of decision] same
      by (simp split: option.split)
    moreover have "trustRequestPromise (completeRequest decision w') = None"
      by (rule completeRequest_promises(2) [OF pre])
    ultimately show ?thesis using pending by simp
  qed
  have "snd (requireWorkspaceTrust request w) = w'" "fst (requireWorkspaceTrust request w) = Future p"
    by (simp_all add: req)
  with same compl show ?thesis
    unfolding w'_def [symmetric] by simp
qed

theorem single_flight_witness:
  "trustRequestPromise
     (perform (RequireWorkspaceTrust (Some \<lparr>immediate = False, message = None\<rparr>))
        (newWorkspaceTrustService None (Some True) False [''file:///a''])) = Some 0
   \<and> inFlightResolver
     (perform (RequireWorkspaceTrust (Some \<lparr>immediate = False, message = None\<rparr>))
        (newWorkspaceTrustService None (Some True) False [''file:///a''])) = Some 0
   \<and> promises
     (perform (RequireWorkspaceTrust (Some \<lparr>immediate = False, message = None\<rparr>))
        (newWorkspaceTrustService None (Some True) False [''file:///a''])) = [None]
   \<and> currentTrustState
     (perform (RequireWorkspaceTrust (Some \<lparr>immediate = False, message = None\<rparr>))
        (newWorkspaceTrustService None (Some True) False [''file:///a''])) = Unknown
   \<and> fst (requireWorkspaceTrust (Some \<lparr>immediate = True, message = None\<rparr>)
       (perform (RequireWorkspaceTrust (Some \<lparr>immediate = False, message = None\<rparr>))
          (newWorkspaceTrustService None (Some True) False [''file:///a'']))) = Future 0
   \<and> promises
     (perform (RequireWorkspaceTrust (Some \<lparr>immediate = True, message = None\<rparr>))
       (perform (RequireWorkspaceTrust (Some \<lparr>immediate = False, message = None\<rparr>))
          (newWorkspaceTrustService None (Some True) False [''file:///a'']))) = [None]
   \<and> trace
     (perform (RequireWorkspaceTrust (Some \<lparr>immediate = True, message = None\<rparr>))
       (perform (RequireWorkspaceTrust (Some \<lparr>immediate = False, message = None\<rparr>))
          (newWorkspaceTrustService None (Some True) False [''file:///a'']))) =
       [DidInitiateRequest, DidInitiateRequest]
   \<and> received (Future 0)
     (perform (CompleteRequest (Some Trusted))
       (perform (RequireWorkspaceTrust (Some \<lparr>immediate = True, message = None\<rparr>))
         (perform (RequireWorkspaceTrust (Some \<lparr>immediate = False, message = None\<rparr>))
            (newWorkspaceTrustService None (Some True) False [''file:///a''])))) = Some Trusted"
  using single_flight [of
      "perform (RequireWorkspaceTrust (Some \<lparr>immediate = False, message = None\<rparr>))
        (newWorkspaceTrustService None (Some True) False [''file:///a''])"
      0 "Some \<lparr>immediate = True, message = None\<rparr>" "Some Trusted"]
  by (simp add: requireWorkspaceTrust_def initiateRequest_def requestImmediate_def
      newWorkspaceTrustService_def calculate_defs loadTrustInfo_typed_def Let_def)

text \<open>
  Claim C4, as stated, fails: the value a cancelled request resolves to is the
  aggregate cached when the request completes, not the one from before the request.
  With one folder of unknown trust a request is made; another window then marks the
  folder untrusted, which reaches the store through the storage change event; the
  prompt is dismissed, and the caller receives \<open>Untrusted\<close>.
\<close>

theorem completeRequest_cancelled_counterexample:
  "currentTrustState (newWorkspaceTrustService None (Some True) False [''file:///a'']) = Unknown
   \<and> fst (requireWorkspaceTrust (Some \<lparr>immediate = False, message = None\<rparr>)
        (newWorkspaceTrustService None (Some True) False [''file:///a''])) = Future 0
   \<and> received (Future 0)
       (perform (CompleteRequest None)
         (perform (StorageChangedElsewhere ''content.trust.model.key''
              (Some \<lparr>localFolders = [\<lparr>uri = ''file:///a'', trustState = Untrusted\<rparr>]\<rparr>))
           (perform (RequireWorkspaceTrust (Some \<lparr>immediate = False, message = None\<rparr>))
             (newWorkspaceTrustService None (Some True) False [''file:///a'']))))
     = Some Untrusted"
  by (simp add: service_defs store_defs WORKSPACE_TRUST_STORAGE_KEY_def
      newWorkspaceTrustService_def calculate_defs Let_def)

text \<open>
  Claim C4, amended. When \<open>completeRequest\<close> is called with no decision while a
  request future is pending, the future is resolved to the aggregate the service has
  cached at that moment, the request slot and the future are cleared, and nothing else
  happens: the record set in memory, the storage and the list of writes are as before.
  When the completion follows the request that made the future with nothing in
  between, that aggregate is the one from before the request.
\<close>

theorem completeRequest_cancelled:
  "(trustRequestPromise w = Some p \<and> inFlightResolver w = Some p
      \<and> p < length (promises w) \<and> promises w ! p = None \<longrightarrow>
      completeRequest None w =
        w\<lparr>trustRequest := None,
          trace := trace w @ [DidCompleteRequest None],
          promises := (promises w)[p := Some (currentTrustState w)],
          inFlightResolver := None,
          trustRequestPromise := None\<rparr>
      \<and> received (Future p) (completeRequest None w) = Some (currentTrustState w))
   \<and> trustStateInfo (completeRequest None w) = trustStateInfo w
   \<and> storage (completeRequest None w) = storage w
   \<and> persisted (trace (completeRequest None w)) = persisted (trace w)
   \<and> (trustRequestPromise w0 = None \<and> requireWorkspaceTrust request w0 = (Future p0, w1) \<longrightarrow>
        received (Future p0) (completeRequest None w1) = Some (currentTrustState w0)
        \<and> trustStateInfo (completeRequest None w1) = trustStateInfo w0)"
proof -
  have a: "completeRequest None w =
        w\<lparr>trustRequest := None,
          trace := trace w @ [DidCompleteRequest None],
          promises := (promises w)[p := Some (currentTrustState w)],
          inFlightResolver := None,
          trustRequestPromise := None\<rparr>
      \<and> received (Future p) (completeRequest None w) = Some (currentTrustState w)"
    if "trustRequestPromise w = Some p \<and> inFlightResolver w = Some p
      \<and> p < length (promises w) \<and> promises w ! p = None"
    using that by (simp add: completeRequest_def onTrustRequestCompleted_def resolvePromise_def)
  have b: "trustStateInfo (completeRequest None w) = trustStateInfo w"
    "storage (completeRequest None w) = storage w"
    "persisted (trace (completeRequest None w)) = persisted (trace w)"
    by (simp_all add: completeRequest_def onTrustRequestCompleted_def resolvePromise_def
        split: option.split)
  have c: "received (Future p0) (completeRequest None w1) = Some (currentTrustState w0)
        \<and> trustStateInfo (completeRequest None w1) = trustStateInfo w0"
    if "trustRequestPromise w0 = None \<and> requireWorkspaceTrust request w0 = (Future p0, w1)"
    using that
    by (auto simp: requireWorkspaceTrust_def initiateRequest_def completeRequest_def
        onTrustRequestCompleted_def resolvePromise_def Let_def nth_append
        split: if_splits option.splits)
  from a b c show ?thesis by blast
qed

theorem completeRequest_cancelled_witness:
  "trustRequestPromise
     (perform (RequireWorkspaceTrust (Some \<lparr>immediate = False, message = None\<rparr>))
        (newWorkspaceTrustService None (Some True) False [''file:///a''])) = Some 0
   \<and> inFlightResolver
     (perform (RequireWorkspaceTrust (Some \<lparr>immediate = False, message = None\<rparr>))
        (newWorkspaceTrustService None (Some True) False [''file:///a''])) = Some 0
   \<and> promises
     (perform (RequireWorkspaceTrust (Some \<lparr>immediate = False, message = None\<rparr>))
        (newWorkspaceTrustService None (Some True) False [''file:///a''])) = [None]
   \<and> requireWorkspaceTrust (Some \<lparr>immediate = False, message = None\<rparr>)
        (newWorkspaceTrustService None (Some True) False [''file:///a''])
      = (Future 0,
         perform (RequireWorkspaceTrust (Some \<lparr>immediate = False, message = None\<rparr>))
          (newWorkspaceTrustService None (Some True) False [''file:///a'']))
   \<and> received (Future 0)
       (completeRequest None
         (perform (RequireWorkspaceTrust (Some \<lparr>immediate = False, message = None\<rparr>))
           (newWorkspaceTrustService None (Some True) False [''file:///a''])))
      = Some Unknown
   \<and> trustStateInfo
       (completeRequest None
         (perform (RequireWorkspaceTrust (Some \<lparr>immediate = False, message = None\<rparr>))
           (newWorkspaceTrustService None (Some True) False [''file:///a''])))
      = \<lparr>localFolders = []\<rparr>"
  using completeRequest_cancelled [of
      "perform (RequireWorkspaceTrust (Some \<lparr>immediate = False, message = None\<rparr>))
        (newWorkspaceTrustService None (Some True) False [''file:///a''])"
      0
      "newWorkspaceTrustService None (Some True) False [''file:///a'']"
      "Some \<lparr>immediate = False, message = None\<rparr>" 0
      "perform (RequireWorkspaceTrust (Some \<lparr>immediate = False, message = None\<rparr>))
        (newWorkspaceTrustService None (Some True) False [''file:///a''])"]
  by (simp add: requireWorkspaceTrust_def initiateRequest_def requestImmediate_def
      newWorkspaceTrustService_def calculate_defs loadTrustInfo_typed_def Let_def)








subsection \<open>The states of a run\<close>

text \<open>
  Every state the calls can reach from a new service is in step with its storage, and
  a future it holds is pending with its resolver in place. So the hypotheses of this
  kind in the statements above exclude no state of a run.
\<close>

lemma in_sync_cong:
  "trustStateInfo w' = trustStateInfo w \<Longrightarrow> storage w' = storage w \<Longrightarrow> in_sync w' = in_sync w"
  by (simp add: in_sync_def)

lemma onTrustRequestCompleted_in_sync:
  assumes "in_sync w"
  shows "in_sync (onTrustRequestCompleted d w)"
proof -
  define w2 where "w2 =
    (case inFlightResolver w of
       Some p \<Rightarrow>
         resolvePromise p (case d of None \<Rightarrow> currentTrustState w | Some st \<Rightarrow> st) w
     | None \<Rightarrow> w)\<lparr>inFlightResolver := None, trustRequestPromise := None\<rparr>"
  have w2: "in_sync w2"
    using assms by (simp add: w2_def in_sync_def resolvePromise_def split: option.split)
  have unfolded: "onTrustRequestCompleted d w =
    (case d of
       None \<Rightarrow> w2
     | Some st \<Rightarrow>
         (setEveryFolder (folders w2) st w2)
           \<lparr>ctxWorkspaceTrustPendingRequest := False, ctxWorkspaceTrustState := st\<rparr>)"
    unfolding onTrustRequestCompleted_def w2_def Let_def by (rule refl)
  show ?thesis
  proof (cases d)
    case None
    with w2 unfolded show ?thesis by simp
  next
    case (Some st)
    from w2 have "in_sync (setEveryFolder (folders w2) st w2)"
      by (rule setEveryFolder_in_sync)
    then have "in_sync ((setEveryFolder (folders w2) st w2)
        \<lparr>ctxWorkspaceTrustPendingRequest := False, ctxWorkspaceTrustState := st\<rparr>)"
      by (simp add: in_sync_def)
    with Some unfolded show ?thesis by simp
  qed
qed

lemma perform_in_sync:
  assumes "in_sync w"
  shows "in_sync (perform c w)"
proof (cases c)
  case (RequireWorkspaceTrust r)
  have "trustStateInfo (snd (requireWorkspaceTrust r w)) = trustStateInfo w"
    "storage (snd (requireWorkspaceTrust r w)) = storage w"
    by (auto simp: requireWorkspaceTrust_def initiateRequest_def Let_def split: option.splits)
  with assms RequireWorkspaceTrust show ?thesis
    by (simp add: in_sync_def)
next
  case ResetWorkspaceTrust
  with assms show ?thesis
    by (simp add: resetWorkspaceTrust_def setEveryFolder_in_sync)
next
  case (InitiateRequest r)
  with assms show ?thesis
    by (auto simp: in_sync_def initiateRequest_def Let_def split: option.splits)
next
  case (CompleteRequest d)
  from assms have "in_sync (w\<lparr>trustRequest := None, trace := trace w @ [DidCompleteRequest d]\<rparr>)"
    by (simp add: in_sync_def)
  then show ?thesis
    unfolding CompleteRequest perform.simps completeRequest_def
    by (rule onTrustRequestCompleted_in_sync)
next
  case (StorageChangedElsewhere key v)
  with assms show ?thesis
    by (simp add: in_sync_def storage_changedElsewhere_def store_defs Let_def)
qed

lemma newWorkspaceTrustService_futurePending:
  "futurePending (newWorkspaceTrustService stored setting isEmpty fs)"
  by (simp add: futurePending_def newWorkspaceTrustService_def Let_def)

lemma perform_futurePending:
  assumes "futurePending w"
  shows "futurePending (perform c w)"
proof (cases c)
  case (RequireWorkspaceTrust r)
  with assms show ?thesis
    by (auto simp: futurePending_def requireWorkspaceTrust_def initiateRequest_def Let_def
        nth_append split: option.splits)
next
  case ResetWorkspaceTrust
  with assms show ?thesis
    by (auto simp: futurePending_def resetWorkspaceTrust_def setEveryFolder_frame
        split: option.splits)
next
  case (InitiateRequest r)
  with assms show ?thesis
    by (auto simp: futurePending_def initiateRequest_def Let_def split: option.splits)
next
  case (CompleteRequest d)
  then show ?thesis
    by (cases d)
      (simp_all add: futurePending_def completeRequest_def onTrustRequestCompleted_def
        setEveryFolder_frame Let_def)
next
  case (StorageChangedElsewhere key v)
  with assms show ?thesis
    by (auto simp: futurePending_def storage_changedElsewhere_frame split: option.splits)
qed

text \<open>Both invariants along any sequence of calls on a new service.\<close>

lemma run_invariants:
  "in_sync (foldl (\<lambda>w c. perform c w) (newWorkspaceTrustService stored setting isEmpty fs) cs)
   \<and> futurePending
       (foldl (\<lambda>w c. perform c w) (newWorkspaceTrustService stored setting isEmpty fs) cs)"
proof (induction cs rule: rev_induct)
  case Nil
  show ?case
    by (simp add: newWorkspaceTrustService_in_sync newWorkspaceTrustService_futurePending)
next
  case (snoc c cs)
  then show ?case
    by (simp add: perform_in_sync perform_futurePending)
qed


section \<open>Properties of the load path\<close>

lemma as_folder_encode_folder: "as_folder (encode_folder i) = Some i"
  by (cases i; cases "trustState i") (simp_all add: encode_folder_def)

lemma those_as_folder_encode: "those (map (as_folder \<circ> encode_folder) fs) = Some fs"
  by (induction fs) (simp_all add: as_folder_encode_folder)

lemma as_info_encode_info: "as_info (encode_info i) = Some i"
  by (cases i) (simp add: encode_info_def those_as_folder_encode)

text \<open>
  The typed load is the untyped one seen through the declared shape: on an absent
  value both give the empty record set, and on the text of a serialised record set
  both give that record set.
\<close>

lemma loadTrustInfo_typed_refines:
  "loadTrustInfo JSON_parse None = Inr emptyTrustInfo"
  "as_info emptyTrustInfo = Some (loadTrustInfo_typed None)"
  "s \<noteq> [] \<Longrightarrow> JSON_parse s = Some (encode_info i) \<Longrightarrow>
     loadTrustInfo JSON_parse (Some s) = Inr (encode_info i)"
  "as_info (encode_info i) = Some (loadTrustInfo_typed (Some i))"
  by (simp_all add: loadTrustInfo_def emptyTrustInfo_def loadTrustInfo_typed_def
      as_info_encode_info, simp add: encode_info_def)

lemma loadTrustInfo_expected:
  assumes "s \<noteq> []" and "JSON_parse s = Some v" and "as_info v = Some i"
  shows "loadTrustInfo JSON_parse (Some s) = Inr v"
proof -
  from assms(3) obtain ps xs qs where v: "v = JObj ps"
    and lf: "map_of ps ''localFolders'' = Some (JArr xs qs)"
    by (cases v) (auto split: option.splits jsval.splits)
  with assms(1,2) show ?thesis
    by (simp add: loadTrustInfo_def)
qed

text \<open>
  What the guards do not cover: a parsed value that is a truthy number, string or
  boolean reaches the assignment of line 140 and throws there.
\<close>

lemma loadTrustInfo_truthy_primitive:
  "loadTrustInfo (\<lambda>s. Some (JNum 5)) (Some ''5'') = Inl TypeError"
  by (simp add: loadTrustInfo_def)

text \<open>
  Claim C9, as stated, fails: a payload that is valid JSON but not of the expected
  structure is not replaced by the empty record set. The text
  \<^verbatim>\<open>{"localFolders":5}\<close> parses to an object whose \<^verbatim>\<open>localFolders\<close> is the number
  5; both guards let it pass, and the store is loaded with it.
\<close>

theorem load_fail_safety_counterexample:
  \<open>as_info (JObj [(''localFolders'', JNum 5)]) = None
   \<and> loadTrustInfo
        (\<lambda>s. if s = ''{"localFolders":5}'' then Some (JObj [(''localFolders'', JNum 5)])
              else None)
        (Some ''{"localFolders":5}'')
      = Inr (JObj [(''localFolders'', JNum 5)])
   \<and> get_localFolders (JObj [(''localFolders'', JNum 5)]) \<noteq> Inr (Some (JArr [] []))\<close>
  by (simp add: loadTrustInfo_def)

lemma get_localFolders_update:
  "get_localFolders (JObj (AList.update ''localFolders'' v ps)) = Inr (Some v)"
  "get_localFolders (JArr xs (AList.update ''localFolders'' v ps)) = Inr (Some v)"
  by (simp_all add: update_conv')

text \<open>
  Claim C9, amended. \<open>loadTrustInfo\<close> returns the empty record set, without an
  error, when the payload is absent or the empty text, when \<^verbatim>\<open>JSON.parse\<close> throws,
  and when the parsed value is falsy (null, false, 0 or the empty string). When the
  parsed value is an object or an array without a truthy \<^verbatim>\<open>localFolders\<close>, that very
  value is returned, without an error, with \<^verbatim>\<open>localFolders\<close> set to the empty array
  and its other properties and elements kept. A payload of the expected structure is
  returned as parsed.
\<close>

theorem load_fail_safe:
  "((case infoAsString of
       None \<Rightarrow> True
     | Some s \<Rightarrow> s = [] \<or> (case JSON_parse s of None \<Rightarrow> True | Some v \<Rightarrow> \<not> truthy v)) \<longrightarrow>
      loadTrustInfo JSON_parse infoAsString = Inr emptyTrustInfo)
   \<and> get_localFolders emptyTrustInfo = Inr (Some (JArr [] []))
   \<and> as_info emptyTrustInfo = Some \<lparr>localFolders = []\<rparr>
   \<and> (infoAsString = Some t \<and> t \<noteq> [] \<and> JSON_parse t = Some (JObj ps)
        \<and> (case map_of ps ''localFolders'' of None \<Rightarrow> True | Some v \<Rightarrow> \<not> truthy v) \<longrightarrow>
        loadTrustInfo JSON_parse infoAsString
          = Inr (JObj (AList.update ''localFolders'' (JArr [] []) ps))
        \<and> get_localFolders (JObj (AList.update ''localFolders'' (JArr [] []) ps))
          = Inr (Some (JArr [] [])))
   \<and> (infoAsString = Some t \<and> t \<noteq> [] \<and> JSON_parse t = Some (JArr xs ps)
        \<and> (case map_of ps ''localFolders'' of None \<Rightarrow> True | Some v \<Rightarrow> \<not> truthy v) \<longrightarrow>
        loadTrustInfo JSON_parse infoAsString
          = Inr (JArr xs (AList.update ''localFolders'' (JArr [] []) ps))
        \<and> get_localFolders (JArr xs (AList.update ''localFolders'' (JArr [] []) ps))
          = Inr (Some (JArr [] [])))
   \<and> (infoAsString = Some t \<and> t \<noteq> [] \<and> JSON_parse t = Some v \<and> as_info v = Some i \<longrightarrow>
        loadTrustInfo JSON_parse infoAsString = Inr v)"
proof -
  have empty: "loadTrustInfo JSON_parse infoAsString = Inr emptyTrustInfo"
    if "case infoAsString of
       None \<Rightarrow> True
     | Some s \<Rightarrow> s = [] \<or> (case JSON_parse s of None \<Rightarrow> True | Some v \<Rightarrow> \<not> truthy v)"
    using that
    by (auto simp: loadTrustInfo_def emptyTrustInfo_def split: option.splits)
  have shape: "get_localFolders emptyTrustInfo = Inr (Some (JArr [] []))"
    "as_info emptyTrustInfo = Some \<lparr>localFolders = []\<rparr>"
    by (simp_all add: emptyTrustInfo_def)
  have object: "loadTrustInfo JSON_parse infoAsString
          = Inr (JObj (AList.update ''localFolders'' (JArr [] []) ps))"
    if "infoAsString = Some t \<and> t \<noteq> [] \<and> JSON_parse t = Some (JObj ps)
        \<and> (case map_of ps ''localFolders'' of None \<Rightarrow> True | Some v \<Rightarrow> \<not> truthy v)"
    using that by (auto simp: loadTrustInfo_def split: option.splits)
  have array: "loadTrustInfo JSON_parse infoAsString
          = Inr (JArr xs (AList.update ''localFolders'' (JArr [] []) ps))"
    if "infoAsString = Some t \<and> t \<noteq> [] \<and> JSON_parse t = Some (JArr xs ps)
        \<and> (case map_of ps ''localFolders'' of None \<Rightarrow> True | Some v \<Rightarrow> \<not> truthy v)"
    using that by (auto simp: loadTrustInfo_def split: option.splits)
  have kept: "loadTrustInfo JSON_parse infoAsString = Inr v"
    if "infoAsString = Some t \<and> t \<noteq> [] \<and> JSON_parse t = Some v \<and> as_info v = Some i"
    using that loadTrustInfo_expected [of t JSON_parse v i] by simp
  from empty shape object array kept get_localFolders_update show ?thesis
    by blast
qed

theorem load_fail_safe_witness:
  \<open>loadTrustInfo (\<lambda>s. if s = ''null'' then Some JNull else None) None = Inr emptyTrustInfo
   \<and> loadTrustInfo (\<lambda>s. if s = ''null'' then Some JNull else None) (Some ''{"localFolders":'')
       = Inr emptyTrustInfo
   \<and> loadTrustInfo (\<lambda>s. if s = ''null'' then Some JNull else None) (Some ''null'')
       = Inr emptyTrustInfo
   \<and> loadTrustInfo
        (\<lambda>s. if s = ''{"localFolders":0,"x":"y"}''
              then Some (JObj [(''localFolders'', JNum 0), (''x'', JStr ''y'')]) else None)
        (Some ''{"localFolders":0,"x":"y"}'')
       = Inr (JObj [(''localFolders'', JArr [] []), (''x'', JStr ''y'')])
   \<and> loadTrustInfo
        (\<lambda>s. if s = ''{"x":"y"}'' then Some (JObj [(''x'', JStr ''y'')]) else None)
        (Some ''{"x":"y"}'')
       = Inr (JObj [(''x'', JStr ''y''), (''localFolders'', JArr [] [])])
   \<and> loadTrustInfo
        (\<lambda>s. if s = ''[7]'' then Some (JArr [JNum 7] []) else None) (Some ''[7]'')
       = Inr (JArr [JNum 7] [(''localFolders'', JArr [] [])])
   \<and> loadTrustInfo
        (\<lambda>s. if s = ''{"localFolders":[{"uri":"file:///a","trustState":1}]}''
              then Some (encode_info
                     \<lparr>localFolders = [\<lparr>uri = ''file:///a'', trustState = Trusted\<rparr>]\<rparr>)
              else None)
        (Some ''{"localFolders":[{"uri":"file:///a","trustState":1}]}'')
       = Inr (JObj [(''localFolders'',
                JArr [JObj [(''uri'', JStr ''file:///a''), (''trustState'', JNum 1)]] [])])\<close>
proof -
  let ?P = "\<lambda>s. if s = ''null'' then Some JNull else None"
  let ?o1 = \<open>''{"localFolders":0,"x":"y"}''\<close>
  let ?Q1 = "\<lambda>s. if s = ?o1
              then Some (JObj [(''localFolders'', JNum 0), (''x'', JStr ''y'')]) else None"
  let ?o2 = \<open>''{"x":"y"}''\<close>
  let ?Q2 = "\<lambda>s. if s = ?o2 then Some (JObj [(''x'', JStr ''y'')]) else None"
  let ?A = "\<lambda>s. if s = ''[7]'' then Some (JArr [JNum 7] []) else None"
  let ?i = "\<lparr>localFolders = [\<lparr>uri = ''file:///a'', trustState = Trusted\<rparr>]\<rparr>"
  let ?t = \<open>''{"localFolders":[{"uri":"file:///a","trustState":1}]}''\<close>
  let ?R = "\<lambda>s. if s = ?t then Some (encode_info ?i) else None"
  have a: "loadTrustInfo ?P None = Inr emptyTrustInfo"
    using load_fail_safe [where infoAsString = None and JSON_parse = ?P] by simp
  have b: \<open>loadTrustInfo ?P (Some ''{"localFolders":'') = Inr emptyTrustInfo\<close>
    using load_fail_safe
      [where infoAsString = \<open>Some ''{"localFolders":''\<close> and JSON_parse = ?P]
    by simp
  have c: "loadTrustInfo ?P (Some ''null'') = Inr emptyTrustInfo"
    using load_fail_safe [where infoAsString = "Some ''null''" and JSON_parse = ?P] by simp
  have d1: "loadTrustInfo ?Q1 (Some ?o1)
      = Inr (JObj [(''localFolders'', JArr [] []), (''x'', JStr ''y'')])"
    using load_fail_safe
      [where infoAsString = "Some ?o1" and JSON_parse = ?Q1 and t = ?o1
         and ps = "[(''localFolders'', JNum 0), (''x'', JStr ''y'')]"]
    by simp
  have d2: "loadTrustInfo ?Q2 (Some ?o2)
      = Inr (JObj [(''x'', JStr ''y''), (''localFolders'', JArr [] [])])"
    using load_fail_safe
      [where infoAsString = "Some ?o2" and JSON_parse = ?Q2 and t = ?o2
         and ps = "[(''x'', JStr ''y'')]"]
    by simp
  have d3: "loadTrustInfo ?A (Some ''[7]'') = Inr (JArr [JNum 7] [(''localFolders'', JArr [] [])])"
    using load_fail_safe
      [where infoAsString = "Some ''[7]''" and JSON_parse = ?A and t = "''[7]''"
         and xs = "[JNum 7]" and ps = "[]"]
    by simp
  have "loadTrustInfo ?R (Some ?t) = Inr (encode_info ?i)"
    using load_fail_safe
      [where infoAsString = "Some ?t" and JSON_parse = ?R and t = ?t
         and v = "encode_info ?i" and i = ?i]
    by (simp add: as_info_encode_info)
  then have e: "loadTrustInfo ?R (Some ?t)
       = Inr (JObj [(''localFolders'',
                JArr [JObj [(''uri'', JStr ''file:///a''), (''trustState'', JNum 1)]] [])])"
    by (simp add: encode_info_def encode_folder_def)
  from a b c d1 d2 d3 e show ?thesis by blast
qed

end
